theory Spec2Isabelle
  imports Complex_Main "HOL-Library.Multiset"
begin

section \<open>Python values used by the managers\<close>

text \<open>
  Python numbers are modelled exactly: \<open>int\<close> for integers and \<open>rat\<close> for the results
  of true division (\<open>/\<close>), so the arithmetic below is exact rational arithmetic. The
  program computes in IEEE doubles, which follow the exact values closely but not exactly:
  a value that lies exactly between two decimals, such as 28.75, can reach \<open>round\<close> just
  below the tie, and the program then returns 28.7 where the exact rounding gives 28.8.
  For this reason the general statements about a rounded value that a function returns
  give a bound on the value, or a value that the rounding reaches exactly (20, 0), and the
  digits of a returned value are stated at concrete inputs that are away from every tie.

  A name is a \<open>string\<close> of characters with code points 0 to 255; \<open>str.lower\<close> maps
  \<open>A..Z\<close> and the upper-case letters of Latin-1 (192 to 222 without 215) to the letter 32
  places up and leaves every other character alone, as Python does on this range. A name
  with a code point above 255 is outside the model. The general results only use that a
  raw score lies in \<open>0..99\<close>.
\<close>

datatype error =
  ZeroDivisionError | AttributeError | ValueError | OperationalError | DataError

definition bind_err :: "error + 'a \<Rightarrow> ('a \<Rightarrow> error + 'b) \<Rightarrow> error + 'b" where
  "bind_err m f = (case m of Inl e \<Rightarrow> Inl e | Inr v \<Rightarrow> f v)"

definition py_div :: "rat \<Rightarrow> rat \<Rightarrow> error + rat" where
  "py_div a b = (if b = 0 then Inl ZeroDivisionError else Inr (a / b))"

definition lower_chr :: "char \<Rightarrow> char" where
  "lower_chr c =
     (let n = (of_char c :: nat) in
      if (65 \<le> n \<and> n \<le> 90) \<or> (192 \<le> n \<and> n \<le> 222 \<and> n \<noteq> 215) then char_of (n + 32)
      else c)"

definition str_lower :: "string \<Rightarrow> string" where
  "str_lower s = map lower_chr s"

definition ord_chr :: "char \<Rightarrow> int" where
  "ord_chr c = of_char c"

text \<open>\<open>round(x)\<close> with no digits: to the nearest integer, a tie going to the even one.\<close>

definition py_round :: "rat \<Rightarrow> int" where
  "py_round x =
     (let f = \<lfloor>x\<rfloor>; d = x - of_int f in
      if d < 1 / 2 then f else if 1 / 2 < d then f + 1 else if even f then f else f + 1)"

text \<open>
  \<open>round(x, n)\<close>: to \<open>n\<close> decimal places, with the same tie rule, applied to the exact
  value of \<open>x\<close>.
\<close>

definition round_nd :: "rat \<Rightarrow> nat \<Rightarrow> rat" where
  "round_nd x n = of_int (py_round (x * 10 ^ n)) / 10 ^ n"

text \<open>\<open>sum(ord(c) for c in name.lower()) % 100\<close>, the first line of each estimator.\<close>

definition raw_score :: "string \<Rightarrow> int" where
  "raw_score name = sum_list (map ord_chr (str_lower name)) mod 100"

section \<open>Football: \<open>FootballDataManager.analyze_match\<close>\<close>

record football_probabilities =
  home :: rat
  draw :: rat
  away :: rat

record football_goals =
  goals_home :: int
  goals_away :: int

record value_bet =
  market :: string
  selection :: string
  odds :: rat
  edge :: rat

record football_analysis =
  probabilities :: football_probabilities
  prediction :: string
  confidence :: rat
  goals :: football_goals
  value_bet :: value_bet

text \<open>Lines 93 to 97: the two raw scores, replaced by 50 and 50 when they add up to 0.\<close>

definition match_scores :: "string \<Rightarrow> string \<Rightarrow> int \<times> int" where
  "match_scores home_name away_name =
     (let home_score = raw_score home_name;
          away_score = raw_score away_name
      in if home_score + away_score = 0 then (50, 50) else (home_score, away_score))"

text \<open>
  Lines 99 to 104: the values of \<open>home_prob\<close>, \<open>draw_prob\<close> and \<open>away_prob\<close> once
  \<open>draw_prob / 3\<close> has been subtracted from both sides. Each division raises
  \<open>ZeroDivisionError\<close> on a zero denominator.
\<close>

definition adjusted_probabilities :: "string \<Rightarrow> string \<Rightarrow> error + rat \<times> rat \<times> rat" where
  "adjusted_probabilities home_name away_name =
     (case match_scores home_name away_name of (home_score, away_score) \<Rightarrow>
        bind_err (py_div (of_int home_score) (of_int (home_score + away_score))) (\<lambda>qh.
        bind_err (py_div (of_int away_score) (of_int (home_score + away_score))) (\<lambda>qa.
          let home_prob = qh * 100;
              away_prob = qa * 100;
              draw_prob = max 20 (100 - home_prob - away_prob)
          in Inr (home_prob - draw_prob / 3, draw_prob, away_prob - draw_prob / 3))))"

text \<open>
  The value the adjustment leaves to a side with score \<open>x\<close> against a side with score
  \<open>y\<close>, in closed form; the lemmas below show that the function computes it.
\<close>

definition side_prob :: "int \<Rightarrow> int \<Rightarrow> rat" where
  "side_prob x y = of_int x / of_int (x + y) * 100 - 20 / 3"

text \<open>Line 106: the label, by the two strict comparisons in the order of the source.\<close>

definition predict :: "rat \<Rightarrow> rat \<Rightarrow> rat \<Rightarrow> string" where
  "predict home_prob draw_prob away_prob =
     (if home_prob > away_prob \<and> home_prob > draw_prob then ''1''
      else if draw_prob > home_prob \<and> draw_prob > away_prob then ''X''
      else ''2'')"

text \<open>
  The whole function. \<open>edge_draw\<close> is the value of \<open>random.uniform(3, 8)\<close>. The odds
  divide by the chosen probability, looked up in the dictionary under the label.
\<close>

definition football_analyze_match :: "string \<Rightarrow> string \<Rightarrow> rat \<Rightarrow> error + football_analysis" where
  "football_analyze_match home_name away_name edge_draw =
     bind_err (adjusted_probabilities home_name away_name) (\<lambda>(home_prob, draw_prob, away_prob).
       let prediction = predict home_prob draw_prob away_prob;
           confidence = max home_prob (max draw_prob away_prob);
           chosen = (if prediction = ''1'' then home_prob
                     else if prediction = ''X'' then draw_prob else away_prob)
       in case match_scores home_name away_name of (home_score, away_score) \<Rightarrow>
          bind_err (py_div 1 (chosen / 100)) (\<lambda>inverse.
            Inr \<lparr>probabilities =
                   \<lparr>home = round_nd home_prob 1,
                    draw = round_nd draw_prob 1,
                    away = round_nd away_prob 1\<rparr>,
                 prediction = prediction,
                 confidence = round_nd confidence 1,
                 goals =
                   \<lparr>goals_home = max 0 (py_round (of_int home_score / 100 * 3)),
                    goals_away = max 0 (py_round (of_int away_score / 100 * 2))\<rparr>,
                 value_bet =
                   \<lparr>market = ''Match Result'',
                    selection = prediction,
                    odds = round_nd inverse 2,
                    edge = round_nd edge_draw 1\<rparr>\<rparr>))"

text \<open>
  \<open>DataManager.analyze_match\<close> of the bot module has the same body, statement for
  statement, and so the same model.
\<close>

definition bot_analyze_match :: "string \<Rightarrow> string \<Rightarrow> rat \<Rightarrow> error + football_analysis" where
  "bot_analyze_match home_name away_name edge_draw =
     bind_err (adjusted_probabilities home_name away_name) (\<lambda>(home_prob, draw_prob, away_prob).
       let prediction = predict home_prob draw_prob away_prob;
           confidence = max home_prob (max draw_prob away_prob);
           chosen = (if prediction = ''1'' then home_prob
                     else if prediction = ''X'' then draw_prob else away_prob)
       in case match_scores home_name away_name of (home_score, away_score) \<Rightarrow>
          bind_err (py_div 1 (chosen / 100)) (\<lambda>inverse.
            Inr \<lparr>probabilities =
                   \<lparr>home = round_nd home_prob 1,
                    draw = round_nd draw_prob 1,
                    away = round_nd away_prob 1\<rparr>,
                 prediction = prediction,
                 confidence = round_nd confidence 1,
                 goals =
                   \<lparr>goals_home = max 0 (py_round (of_int home_score / 100 * 3)),
                    goals_away = max 0 (py_round (of_int away_score / 100 * 2))\<rparr>,
                 value_bet =
                   \<lparr>market = ''Match Result'',
                    selection = prediction,
                    odds = round_nd inverse 2,
                    edge = round_nd edge_draw 1\<rparr>\<rparr>))"

section \<open>Tennis: \<open>TennisDataManager.analyze_match\<close>\<close>

text \<open>
  The random module is an input: one field for each call the function makes, in the order
  of the calls. \<open>random.choice(seq)\<close> with the drawn index \<open>k\<close> is \<open>choice seq k\<close>.
  The break points and the first serve percentage are kept as the drawn numbers, which the
  source formats into strings.
\<close>

definition choice :: "'a list \<Rightarrow> nat \<Rightarrow> 'a" where
  "choice seq k = seq ! (k mod length seq)"

record tennis_draws =
  adjustment :: rat
  sets_pick :: nat
  surface_pick :: nat
  specialist_pick :: nat
  aces_pick :: nat
  break_won :: int
  break_chances :: int
  serve_percent :: int

record tennis_probabilities =
  player1_prob :: rat
  player2_prob :: rat

record tennis_key_stats =
  aces_advantage :: string
  break_points :: "int \<times> int"
  first_serve :: int

record tennis_analysis =
  player1 :: string
  player2 :: string
  tn_probabilities :: tennis_probabilities
  tn_predicted_winner :: string
  tn_confidence :: rat
  predicted_score :: string
  surface :: string
  surface_specialist :: string
  key_stats :: tennis_key_stats

definition surfaces :: "string list" where
  "surfaces = [''Hard'', ''Clay'', ''Grass'', ''Carpet'']"

text \<open>
  Lines 106 to 124: the pair of probabilities after the perturbation and the
  renormalisation, before they are rounded for the result.
\<close>

definition tennis_normalized :: "string \<Rightarrow> string \<Rightarrow> rat \<Rightarrow> error + rat \<times> rat" where
  "tennis_normalized p1 p2 adj =
     (case (let p1_score = raw_score p1;
                p2_score = raw_score p2
            in if p1_score + p2_score = 0 then (50, 50) else (p1_score, p2_score))
      of (p1_score, p2_score) \<Rightarrow>
        let total = p1_score + p2_score in
        bind_err (py_div (of_int p1_score) (of_int total)) (\<lambda>q1.
        bind_err (py_div (of_int p2_score) (of_int total)) (\<lambda>q2.
          let player1_prob = q1 * 100 + adj;
              player2_prob = q2 * 100 - adj;
              total_prob = player1_prob + player2_prob
          in bind_err (py_div player1_prob total_prob) (\<lambda>n1.
             bind_err (py_div player2_prob total_prob) (\<lambda>n2.
               Inr (n1 * 100, n2 * 100))))))"

definition tennis_analyze_match ::
    "string \<Rightarrow> string \<Rightarrow> tennis_draws \<Rightarrow> error + tennis_analysis" where
  "tennis_analyze_match p1 p2 rnd =
     bind_err (tennis_normalized p1 p2 (adjustment rnd)) (\<lambda>(p1_prob, p2_prob).
       let winner = (if p1_prob > p2_prob then p1 else p2);
           conf = max p1_prob p2_prob;
           sets = (if p1_prob > p2_prob then choice [''2-0'', ''2-1''] (sets_pick rnd)
                   else choice [''0-2'', ''1-2''] (sets_pick rnd))
       in Inr \<lparr>player1 = p1,
               player2 = p2,
               tn_probabilities =
                 \<lparr>player1_prob = round_nd p1_prob 1, player2_prob = round_nd p2_prob 1\<rparr>,
               tn_predicted_winner = winner,
               tn_confidence = round_nd conf 1,
               predicted_score = sets,
               surface = choice surfaces (surface_pick rnd),
               surface_specialist = choice [p1, p2] (specialist_pick rnd),
               key_stats =
                 \<lparr>aces_advantage = choice [p1, p2] (aces_pick rnd),
                  break_points = (break_won rnd, break_chances rnd),
                  first_serve = serve_percent rnd\<rparr>\<rparr>)"

section \<open>Basketball: \<open>BasketballDataManager.analyze_match\<close>\<close>

record basketball_draws =
  spread_draw :: int
  total_points_draw :: int

record basketball_probabilities =
  bk_home :: rat
  bk_away :: rat

record basketball_analysis =
  home_team :: string
  away_team :: string
  bk_probabilities :: basketball_probabilities
  bk_predicted_winner :: string
  bk_confidence :: rat
  spread :: "string \<times> int"
  total_points :: int
  keys :: "string list"

text \<open>Lines 89 to 93: the two scores, the home one with the home court bonus added.\<close>

definition basketball_scores :: "string \<Rightarrow> string \<Rightarrow> int \<times> int" where
  "basketball_scores home_name away_name =
     (let h_score = raw_score home_name;
          a_score = raw_score away_name
      in (h_score + 10, a_score))"

text \<open>
  The spread is the sign and the drawn number that the source joins into one string.
\<close>

definition basketball_analyze_match ::
    "string \<Rightarrow> string \<Rightarrow> basketball_draws \<Rightarrow> error + basketball_analysis" where
  "basketball_analyze_match home_name away_name rnd =
     (case basketball_scores home_name away_name of (h_score, a_score) \<Rightarrow>
        let total = h_score + a_score in
        bind_err (py_div (of_int h_score) (of_int total)) (\<lambda>qh.
        bind_err (py_div (of_int a_score) (of_int total)) (\<lambda>qa.
          let home_prob = qh * 100;
              away_prob = qa * 100;
              winner = (if home_prob > away_prob then home_name else away_name);
              conf = max home_prob away_prob
          in Inr \<lparr>home_team = home_name,
                  away_team = away_name,
                  bk_probabilities =
                    \<lparr>bk_home = round_nd home_prob 1, bk_away = round_nd away_prob 1\<rparr>,
                  bk_predicted_winner = winner,
                  bk_confidence = round_nd conf 1,
                  spread = (if winner = away_name then ''+'' else ''-'', spread_draw rnd),
                  total_points = total_points_draw rnd,
                  keys = [''Rebound Control'', ''3-Point Percentage'', ''Turnover Margin'']\<rparr>)))"

section \<open>The three-way estimator as the specification words it\<close>

datatype outcome = HomeWin | Draw | AwayWin

record estimate =
  prob_a :: rat
  prob_draw :: rat
  prob_b :: rat
  outcome :: outcome
  est_confidence :: rat

definition label_of :: "outcome \<Rightarrow> string" where
  "label_of out = (case out of HomeWin \<Rightarrow> ''1'' | Draw \<Rightarrow> ''X'' | AwayWin \<Rightarrow> ''2'')"

text \<open>
  Steps 1 to 6 of the specification's three-way algorithm: raw scores, the substitution of
  50 and 50 when both are zero, normalisation, the draw probability and its third taken
  from each side, the label and the confidence. No step rounds.
\<close>

definition spec_estimate :: "string \<Rightarrow> string \<Rightarrow> estimate" where
  "spec_estimate entity_a entity_b =
     (let raw_a = sum_list (map ord_chr (str_lower entity_a)) mod 100;
          raw_b = sum_list (map ord_chr (str_lower entity_b)) mod 100;
          score_a = (if raw_a = 0 \<and> raw_b = 0 then 50 else raw_a);
          score_b = (if raw_a = 0 \<and> raw_b = 0 then 50 else raw_b);
          norm_a = of_int score_a / of_int (score_a + score_b) * 100;
          norm_b = of_int score_b / of_int (score_a + score_b) * 100;
          draw_p = max 20 (100 - norm_a - norm_b);
          adj_a = norm_a - draw_p / 3;
          adj_b = norm_b - draw_p / 3
      in \<lparr>prob_a = adj_a,
          prob_draw = draw_p,
          prob_b = adj_b,
          outcome =
            (if adj_a > draw_p \<and> adj_a > adj_b then HomeWin
             else if draw_p > adj_a \<and> draw_p > adj_b then Draw
             else AwayWin),
          est_confidence = Max {adj_a, draw_p, adj_b}\<rparr>)"

section \<open>Data source adapters: mapping API records\<close>

text \<open>
  A decoded API payload is a JSON value. \<open>d.get(key, default)\<close> is defined on
  dictionaries only: on any other value the attribute lookup raises \<open>AttributeError\<close>.
\<close>

datatype json =
  JNull | JBool bool | JNum rat | JStr string | JArr "json list" | JObj "(string \<times> json) list"

definition py_get :: "json \<Rightarrow> string \<Rightarrow> json \<Rightarrow> error + json" where
  "py_get obj key dflt =
     (case obj of
        JObj kvs \<Rightarrow> Inr (case map_of kvs key of Some v \<Rightarrow> v | None \<Rightarrow> dflt)
      | _ \<Rightarrow> Inl AttributeError)"

subsection \<open>Tennis: \<open>_format_api_matches\<close> and \<open>_format_api_rankings\<close>\<close>

record tennis_match =
  tm_player1 :: json
  tm_player2 :: json
  tm_tournament :: json
  tm_surface :: json
  tm_time :: json
  tm_round :: json

text \<open>The body of the \<open>try\<close>: the dictionary built from one record.\<close>

definition format_match :: "json \<Rightarrow> error + tennis_match" where
  "format_match m =
     bind_err (py_get m ''player1'' (JObj [])) (\<lambda>p1.
     bind_err (py_get p1 ''name'' (JStr ''Player 1'')) (\<lambda>n1.
     bind_err (py_get m ''player2'' (JObj [])) (\<lambda>p2.
     bind_err (py_get p2 ''name'' (JStr ''Player 2'')) (\<lambda>n2.
     bind_err (py_get m ''competition'' (JObj [])) (\<lambda>c.
     bind_err (py_get c ''name'' (JStr ''Tournament'')) (\<lambda>t.
     bind_err (py_get m ''surface'' (JStr ''Hard'')) (\<lambda>sf.
     bind_err (py_get m ''date'' (JStr ''TBD'')) (\<lambda>d.
     bind_err (py_get m ''round'' (JStr ''R32'')) (\<lambda>r.
       Inr \<lparr>tm_player1 = n1, tm_player2 = n2, tm_tournament = t,
            tm_surface = sf, tm_time = d, tm_round = r\<rparr>)))))))))"

text \<open>
  The \<open>for\<close> loop with its \<open>try\<close> inside: a record whose mapping raises is skipped
  (\<open>continue\<close>), every other one is appended.
\<close>

fun format_matches_loop :: "json list \<Rightarrow> tennis_match list \<Rightarrow> tennis_match list" where
  "format_matches_loop [] matches = matches"
| "format_matches_loop (m # rest) matches =
     (case format_match m of
        Inl e \<Rightarrow> format_matches_loop rest matches
      | Inr r \<Rightarrow> format_matches_loop rest (matches @ [r]))"

definition format_api_matches :: "json list \<Rightarrow> tennis_match list" where
  "format_api_matches api_data = format_matches_loop (take 10 api_data) []"

text \<open>
  \<open>TennisDataManager.get_todays_matches\<close>: \<open>matches_data\<close> is what the API client
  returned (\<open>None\<close> after a failed request) and \<open>simulated\<close> the randomly generated
  list of the fallback.
\<close>

definition tennis_get_todays_matches ::
    "string \<Rightarrow> json list option \<Rightarrow> tennis_match list \<Rightarrow> tennis_match list" where
  "tennis_get_todays_matches api_key matches_data simulated =
     (if api_key \<noteq> [] then
        (case matches_data of
           Some d \<Rightarrow> if d \<noteq> [] then format_api_matches d else simulated
         | None \<Rightarrow> simulated)
      else simulated)"

record tennis_ranking =
  tr_rank :: json
  tr_player :: json
  tr_points :: json
  tr_country :: json

definition format_ranking :: "json \<Rightarrow> error + tennis_ranking" where
  "format_ranking rank =
     bind_err (py_get rank ''rank'' (JNum 0)) (\<lambda>r.
     bind_err (py_get rank ''player'' (JObj [])) (\<lambda>p.
     bind_err (py_get p ''name'' (JStr ''Unknown'')) (\<lambda>n.
     bind_err (py_get rank ''points'' (JNum 0)) (\<lambda>pts.
     bind_err (py_get rank ''player'' (JObj [])) (\<lambda>p'.
     bind_err (py_get p' ''country'' (JStr ''N/A'')) (\<lambda>c.
       Inr \<lparr>tr_rank = r, tr_player = n, tr_points = pts, tr_country = c\<rparr>))))))"

fun format_rankings_loop :: "json list \<Rightarrow> tennis_ranking list \<Rightarrow> tennis_ranking list" where
  "format_rankings_loop [] rankings = rankings"
| "format_rankings_loop (rank # rest) rankings =
     (case format_ranking rank of
        Inl e \<Rightarrow> format_rankings_loop rest rankings
      | Inr r \<Rightarrow> format_rankings_loop rest (rankings @ [r]))"

definition upper_chr :: "char \<Rightarrow> char" where
  "upper_chr c =
     (let n = (of_char c :: nat) in if 97 \<le> n \<and> n \<le> 122 then char_of (n - 32) else c)"

definition format_api_rankings :: "json list \<Rightarrow> string \<Rightarrow> string \<times> tennis_ranking list" where
  "format_api_rankings api_data tour =
     (map upper_chr tour, format_rankings_loop (take 20 api_data) [])"

subsection \<open>Basketball: \<open>_format_api_games\<close>\<close>

record basketball_game =
  bg_home_team :: json
  bg_away_team :: json
  bg_league :: json
  bg_time :: json
  bg_date :: json

definition format_game :: "json \<Rightarrow> error + basketball_game" where
  "format_game game =
     bind_err (py_get game ''teams'' (JObj [])) (\<lambda>t1.
     bind_err (py_get t1 ''home'' (JObj [])) (\<lambda>h.
     bind_err (py_get h ''name'' (JStr ''Home'')) (\<lambda>hn.
     bind_err (py_get game ''teams'' (JObj [])) (\<lambda>t2.
     bind_err (py_get t2 ''away'' (JObj [])) (\<lambda>a.
     bind_err (py_get a ''name'' (JStr ''Away'')) (\<lambda>an.
     bind_err (py_get game ''league'' (JObj [])) (\<lambda>l.
     bind_err (py_get l ''name'' (JStr ''League'')) (\<lambda>ln.
     bind_err (py_get game ''time'' (JStr ''TBD'')) (\<lambda>tm.
     bind_err (py_get game ''date'' (JStr ''Today'')) (\<lambda>d.
       Inr \<lparr>bg_home_team = hn, bg_away_team = an, bg_league = ln,
            bg_time = tm, bg_date = d\<rparr>))))))))))"

fun format_games_loop :: "json list \<Rightarrow> basketball_game list \<Rightarrow> basketball_game list" where
  "format_games_loop [] games = games"
| "format_games_loop (game # rest) games =
     (case format_game game of
        Inl e \<Rightarrow> format_games_loop rest games
      | Inr g \<Rightarrow> format_games_loop rest (games @ [g]))"

definition format_api_games :: "json list \<Rightarrow> basketball_game list" where
  "format_api_games api_data = format_games_loop (take 15 api_data) []"

definition basketball_get_todays_matches ::
    "string \<Rightarrow> json list option \<Rightarrow> basketball_game list \<Rightarrow> basketball_game list" where
  "basketball_get_todays_matches api_key games_data simulated =
     (if api_key \<noteq> [] then
        (case games_data of
           Some d \<Rightarrow> if d \<noteq> [] then format_api_games d else simulated
         | None \<Rightarrow> simulated)
      else simulated)"

subsection \<open>Football: \<open>FootballDataManager.get_todays_matches\<close>\<close>

text \<open>
  The keys of \<open>self.leagues\<close> with their API ids. A match carries the key of its league:
  the display name is the \<open>name\<close> entry stored under that key.
\<close>

datatype league_code = SA | PL | PD | BL1

definition league_id :: "league_code \<Rightarrow> int" where
  "league_id k = (case k of SA \<Rightarrow> 135 | PL \<Rightarrow> 39 | PD \<Rightarrow> 140 | BL1 \<Rightarrow> 78)"

record football_match =
  fm_home :: json
  fm_away :: json
  fm_league :: league_code
  fm_time :: string

text \<open>\<open>next((k for k, v in self.leagues.items() if v['id'] == league_id), None)\<close>\<close>

definition league_code_of :: "json \<Rightarrow> league_code option" where
  "league_code_of lid = find (\<lambda>k. JNum (of_int (league_id k)) = lid) [SA, PL, PD, BL1]"

text \<open>\<open>date.replace('Z', '+00:00')\<close>: a method of strings only.\<close>

definition replace_Z :: "json \<Rightarrow> error + string" where
  "replace_Z d =
     (case d of
        JStr s \<Rightarrow> Inr (concat (map (\<lambda>c. if c = CHR ''Z'' then ''+00:00'' else [c]) s))
      | _ \<Rightarrow> Inl AttributeError)"

text \<open>
  One pass of the loop body. \<open>clock\<close> stands for the standard library's
  \<open>datetime.fromisoformat(...).strftime("%H:%M")\<close>, which raises \<open>ValueError\<close> on text
  it cannot parse. The result is \<open>None\<close> for a fixture of a league that is not supported.
\<close>

definition map_fixture :: "(string \<Rightarrow> error + string) \<Rightarrow> json \<Rightarrow> error + football_match option" where
  "map_fixture clock fix =
     bind_err (py_get fix ''league'' (JObj [])) (\<lambda>lg.
     bind_err (py_get lg ''id'' JNull) (\<lambda>lid.
       case league_code_of lid of
         None \<Rightarrow> Inr None
       | Some code \<Rightarrow>
           bind_err (py_get fix ''teams'' (JObj [])) (\<lambda>t1.
           bind_err (py_get t1 ''home'' (JObj [])) (\<lambda>h.
           bind_err (py_get h ''name'' JNull) (\<lambda>hn.
           bind_err (py_get fix ''teams'' (JObj [])) (\<lambda>t2.
           bind_err (py_get t2 ''away'' (JObj [])) (\<lambda>a.
           bind_err (py_get a ''name'' JNull) (\<lambda>an.
           bind_err (py_get fix ''fixture'' (JObj [])) (\<lambda>fx.
           bind_err (py_get fx ''date'' JNull) (\<lambda>d.
           bind_err (replace_Z d) (\<lambda>iso.
           bind_err (clock iso) (\<lambda>hhmm.
             Inr (Some \<lparr>fm_home = hn, fm_away = an, fm_league = code,
                        fm_time = hhmm\<rparr>)))))))))))))"

text \<open>The loop has no \<open>try\<close> of its own: an exception leaves it.\<close>

fun fixtures_loop ::
    "(string \<Rightarrow> error + string) \<Rightarrow> json list \<Rightarrow> football_match list \<Rightarrow> error + football_match list" where
  "fixtures_loop clock [] matches = Inr matches"
| "fixtures_loop clock (fix # rest) matches =
     (case map_fixture clock fix of
        Inl e \<Rightarrow> Inl e
      | Inr None \<Rightarrow> fixtures_loop clock rest matches
      | Inr (Some m) \<Rightarrow> fixtures_loop clock rest (matches @ [m]))"

definition get_simulated_matches :: "football_match list" where
  "get_simulated_matches =
     [\<lparr>fm_home = JStr ''Inter'', fm_away = JStr ''Milan'', fm_league = SA, fm_time = ''20:45''\<rparr>,
      \<lparr>fm_home = JStr ''Man City'', fm_away = JStr ''Liverpool'', fm_league = PL, fm_time = ''12:30''\<rparr>,
      \<lparr>fm_home = JStr ''Barcelona'', fm_away = JStr ''Real Madrid'', fm_league = PD, fm_time = ''21:00''\<rparr>,
      \<lparr>fm_home = JStr ''Juventus'', fm_away = JStr ''Napoli'', fm_league = SA, fm_time = ''18:00''\<rparr>,
      \<lparr>fm_home = JStr ''Bayern'', fm_away = JStr ''Dortmund'', fm_league = BL1, fm_time = ''17:30''\<rparr>]"

text \<open>
  \<open>fixtures\<close> is what \<open>get_football_fixtures()\<close> returned: \<open>None\<close> after a failed
  request, the \<open>response\<close> array otherwise. The outer \<open>except\<close> answers every
  exception of the loop with the simulated list.
\<close>

definition football_get_todays_matches ::
    "(string \<Rightarrow> error + string) \<Rightarrow> string \<Rightarrow> json list option \<Rightarrow> football_match list" where
  "football_get_todays_matches clock api_key fixtures =
     (if api_key = [] then get_simulated_matches
      else case fixtures of
        None \<Rightarrow> get_simulated_matches
      | Some fs \<Rightarrow>
          if fs = [] then get_simulated_matches
          else (case fixtures_loop clock fs [] of
                  Inl e \<Rightarrow> get_simulated_matches
                | Inr matches \<Rightarrow> if matches \<noteq> [] then matches else get_simulated_matches))"

text \<open>
  A stand-in for the library call on the timestamps the API sends,
  \<open>YYYY-MM-DDTHH:MM:SS+00:00\<close>: it returns the \<open>HH:MM\<close> of a text of that length with
  the \<open>T\<close> in its place and refuses every other text. It is used for concrete inputs only.
\<close>

definition clock_of_iso :: "string \<Rightarrow> error + string" where
  "clock_of_iso s =
     (if length s = 25 \<and> take 1 (drop 10 s) = ''T'' then Inr (take 5 (drop 11 s))
      else Inl ValueError)"

text \<open>A well-formed fixture record of the given league, and a record with no date.\<close>

definition fixture_of :: "int \<Rightarrow> string \<Rightarrow> string \<Rightarrow> string \<Rightarrow> json" where
  "fixture_of lid home_name away_name date =
     JObj [(''fixture'', JObj [(''date'', JStr date)]),
           (''league'', JObj [(''id'', JNum (of_int lid))]),
           (''teams'', JObj [(''home'', JObj [(''name'', JStr home_name)]),
                             (''away'', JObj [(''name'', JStr away_name)])])]"

definition fixture_without_date :: "int \<Rightarrow> string \<Rightarrow> string \<Rightarrow> json" where
  "fixture_without_date lid home_name away_name =
     JObj [(''fixture'', JObj [(''date'', JNull)]),
           (''league'', JObj [(''id'', JNum (of_int lid))]),
           (''teams'', JObj [(''home'', JObj [(''name'', JStr home_name)]),
                             (''away'', JObj [(''name'', JStr away_name)])])]"

text \<open>
  The records of a batch whose mapping raises nothing, mapped, in the order of the batch:
  what a loop that skips the failing records is expected to collect.
\<close>

definition successes :: "('a \<Rightarrow> error + 'b) \<Rightarrow> 'a list \<Rightarrow> 'b list" where
  "successes f xs = List.map_filter (\<lambda>x. case f x of Inl e \<Rightarrow> None | Inr r \<Rightarrow> Some r) xs"

section \<open>Persistence: \<open>DatabaseManager\<close>\<close>

text \<open>
  A table is the list of its rows in insertion order; timestamps are integers. A session
  that has lost its connection raises \<open>OperationalError\<close> on its first statement. The
  sport-specific columns of a prediction row are its \<open>details\<close>.
\<close>

record user =
  user_id :: nat
  telegram_id :: int
  username :: "string option"
  first_name :: "string option"
  last_name :: "string option"
  is_active :: bool
  is_subscribed :: bool
  is_premium :: bool
  subscription_ends :: "int option"
  created_at :: int
  last_seen :: int

record 'a prediction_row =
  pred_id :: nat
  pred_user_id :: "nat option"
  details :: 'a
  is_correct :: "bool option"
  pred_created_at :: int

text \<open>
  \<open>integer_bits\<close> is the width of an \<open>Integer\<close> column on the database behind the
  session: 32 on PostgreSQL, which the connection string of the models module targets, 64
  on SQLite.
\<close>

record ('f, 't, 'b) database =
  session_ok :: bool
  integer_bits :: nat
  users :: "user list"
  next_user_id :: nat
  predictions :: "'f prediction_row list"
  tennis_predictions :: "'t prediction_row list"
  basketball_predictions :: "'b prediction_row list"

text \<open>\<open>a or b\<close> on optional strings: \<open>None\<close> and the empty string are false.\<close>

definition py_or :: "string option \<Rightarrow> string option \<Rightarrow> string option" where
  "py_or a b = (case a of None \<Rightarrow> b | Some s \<Rightarrow> if s = [] then b else Some s)"

text \<open>The values that fit a signed integer column of the given width.\<close>

definition integer_column :: "nat \<Rightarrow> int \<Rightarrow> bool" where
  "integer_column bits v = (- (2 ^ (bits - 1)) \<le> v \<and> v < 2 ^ (bits - 1))"

text \<open>
  \<open>get_or_create_user\<close>. \<open>now\<close> is the value of the call \<open>datetime.utcnow()\<close> in
  the function, and \<open>later\<close> the second reading of the clock, which the default of
  \<open>created_at\<close> takes when the row is inserted. The insert takes the next value of the key
  sequence, and raises when the platform id does not fit the \<open>telegram_id\<close> column
  (\<open>Column(Integer)\<close>); no row with such an id can be stored. The update is the \<open>UPDATE\<close>
  of the changed columns on the row's primary key. On an exception the transaction is
  rolled back and the exception raised again, so the caller keeps the database it had.
\<close>

definition get_or_create_user ::
    "('f, 't, 'b) database \<Rightarrow> int \<Rightarrow> int \<Rightarrow> int \<Rightarrow> string option \<Rightarrow> string option
      \<Rightarrow> string option \<Rightarrow> error + user \<times> ('f, 't, 'b) database" where
  "get_or_create_user db now later tid uname fname lname =
     (if \<not> session_ok db then Inl OperationalError
      else case find (\<lambda>u. telegram_id u = tid) (users db) of
        None \<Rightarrow>
          if \<not> integer_column (integer_bits db) tid then Inl DataError
          else
            let user = \<lparr>user_id = next_user_id db, telegram_id = tid, username = uname,
                         first_name = fname, last_name = lname, is_active = True,
                         is_subscribed = False, is_premium = False, subscription_ends = None,
                         created_at = later, last_seen = now\<rparr>
            in Inr (user,
                    db\<lparr>users := users db @ [user], next_user_id := Suc (next_user_id db)\<rparr>)
      | Some u \<Rightarrow>
          let change = (\<lambda>r. r\<lparr>last_seen := now,
                                 username := py_or uname (username u),
                                 first_name := py_or fname (first_name u),
                                 last_name := py_or lname (last_name u)\<rparr>)
          in Inr (change u,
                  db\<lparr>users := map (\<lambda>r. if user_id r = user_id u then change r else r) (users db)\<rparr>))"

text \<open>
  The column changes of the update branch as a function of their own: \<open>u\<close> is the
  row the lookup found and \<open>r\<close> the row the \<open>UPDATE\<close> is applied to.
\<close>

definition user_change ::
    "int \<Rightarrow> string option \<Rightarrow> string option \<Rightarrow> string option \<Rightarrow> user \<Rightarrow> user \<Rightarrow> user" where
  "user_change now uname fname lname u r =
     r\<lparr>last_seen := now,
       username := py_or uname (username u),
       first_name := py_or fname (first_name u),
       last_name := py_or lname (last_name u)\<rparr>"

record 'a user_stats =
  total_predictions :: nat
  correct_predictions :: nat
  accuracy :: rat
  recent_predictions :: "'a prediction_row list"
  stats_user :: "user option"

text \<open>
  \<open>order_by(desc(created_at))\<close>. SQL leaves the order of rows of equal time open; the
  model keeps them in table order, and no statement below depends on that choice.
\<close>

definition order_by_desc :: "'a prediction_row list \<Rightarrow> 'a prediction_row list" where
  "order_by_desc rows = sort_key (\<lambda>p. - pred_created_at p) rows"

text \<open>The three counts and queries of a statistics method, on the table it reads.\<close>

definition table_stats :: "'a prediction_row list \<Rightarrow> user \<Rightarrow> 'a user_stats" where
  "table_stats rows user =
     (let mine = filter (\<lambda>p. pred_user_id p = Some (user_id user)) rows;
          total = length mine;
          correct = length (filter (\<lambda>p. is_correct p = Some True) mine);
          recent = take 5 (order_by_desc mine);
          acc = (if total > 0 then of_nat correct / of_nat total * 100 else 0)
      in \<lparr>total_predictions = total,
          correct_predictions = correct,
          accuracy = round_nd acc 1,
          recent_predictions = recent,
          stats_user = Some user\<rparr>)"

definition failed_stats :: "'a user_stats" where
  "failed_stats =
     \<lparr>total_predictions = 0, correct_predictions = 0, accuracy = 0,
      recent_predictions = [], stats_user = None\<rparr>"

definition get_user_stats ::
    "('f, 't, 'b) database \<Rightarrow> int \<Rightarrow> int \<Rightarrow> int \<Rightarrow> 'f user_stats \<times> ('f, 't, 'b) database" where
  "get_user_stats db now later tid =
     (case get_or_create_user db now later tid None None None of
        Inl e \<Rightarrow> (failed_stats, db)
      | Inr (user, db') \<Rightarrow> (table_stats (predictions db') user, db'))"

definition get_tennis_stats ::
    "('f, 't, 'b) database \<Rightarrow> int \<Rightarrow> int \<Rightarrow> int \<Rightarrow> 't user_stats \<times> ('f, 't, 'b) database" where
  "get_tennis_stats db now later tid =
     (case get_or_create_user db now later tid None None None of
        Inl e \<Rightarrow> (failed_stats, db)
      | Inr (user, db') \<Rightarrow> (table_stats (tennis_predictions db') user, db'))"

definition get_basketball_stats ::
    "('f, 't, 'b) database \<Rightarrow> int \<Rightarrow> int \<Rightarrow> int \<Rightarrow> 'b user_stats \<times> ('f, 't, 'b) database" where
  "get_basketball_stats db now later tid =
     (case get_or_create_user db now later tid None None None of
        Inl e \<Rightarrow> (failed_stats, db)
      | Inr (user, db') \<Rightarrow> (table_stats (basketball_predictions db') user, db'))"

text \<open>
  Two small databases on PostgreSQL for concrete runs: one with two users and three
  football predictions of the first user, one of them settled as correct, and an empty one.
\<close>

definition sample_db :: "(unit, unit, unit) database" where
  "sample_db =
     \<lparr>session_ok = True,
      integer_bits = 32,
      users = [\<lparr>user_id = 1, telegram_id = 42, username = Some ''ann'', first_name = None,
                last_name = None, is_active = True, is_subscribed = False, is_premium = False,
                subscription_ends = None, created_at = 5, last_seen = 5\<rparr>,
               \<lparr>user_id = 2, telegram_id = 43, username = None, first_name = None,
                last_name = None, is_active = True, is_subscribed = False, is_premium = False,
                subscription_ends = None, created_at = 6, last_seen = 6\<rparr>],
      next_user_id = 3,
      predictions =
        [\<lparr>pred_id = 1, pred_user_id = Some 1, details = (), is_correct = Some True,
          pred_created_at = 10\<rparr>,
         \<lparr>pred_id = 2, pred_user_id = Some 1, details = (), is_correct = Some False,
          pred_created_at = 30\<rparr>,
         \<lparr>pred_id = 3, pred_user_id = Some 1, details = (), is_correct = None,
          pred_created_at = 20\<rparr>],
      tennis_predictions = [],
      basketball_predictions = []\<rparr>"


section \<open>Rounding and raw scores\<close>

lemma raw_score_range: "0 \<le> raw_score s \<and> raw_score s < 100"
  by (simp add: raw_score_def)

lemma match_scores_range:
  assumes "match_scores h a = (x, y)"
  shows "0 \<le> x \<and> 0 \<le> y \<and> 0 < x + y \<and> x < 100 \<and> y < 100"
proof -
  have r: "0 \<le> raw_score h" "raw_score h < 100" "0 \<le> raw_score a" "raw_score a < 100"
    using raw_score_range by auto
  show ?thesis
  proof (cases "raw_score h + raw_score a = 0")
    case True
    with assms show ?thesis by (simp add: match_scores_def Let_def)
  next
    case False
    with assms have "x = raw_score h" "y = raw_score a"
      by (simp_all add: match_scores_def Let_def)
    with r False show ?thesis by simp
  qed
qed

lemma share_sum:
  fixes x y :: int
  assumes "0 < x + y"
  shows "(of_int x :: rat) / of_int (x + y) * 100 + of_int y / of_int (x + y) * 100 = 100"
proof -
  have nz: "(of_int (x + y) :: rat) \<noteq> 0" using assms by simp
  define s :: rat where "s = of_int (x + y)"
  have sum: "(of_int x :: rat) + of_int y = s" by (simp add: s_def)
  have "(of_int x :: rat) / s * 100 + of_int y / s * 100 = (of_int x + of_int y) / s * 100"
    by (simp add: add_divide_distrib distrib_right)
  also have "\<dots> = 100" using nz unfolding sum by (simp add: s_def)
  finally show ?thesis by (simp add: s_def)
qed

lemma adjusted_probabilities_eq:
  assumes "match_scores h a = (x, y)"
  shows "adjusted_probabilities h a =
    Inr (of_int x / of_int (x + y) * 100 - 20 / 3, 20, of_int y / of_int (x + y) * 100 - 20 / 3)"
proof -
  from match_scores_range [OF assms] have pos: "0 < x + y" by simp
  then have nz: "(of_int (x + y) :: rat) \<noteq> 0" by simp
  have d: "max (20::rat) (100 - of_int x / of_int (x + y) * 100 - of_int y / of_int (x + y) * 100) = 20"
    using share_sum [OF pos] by (simp add: max_def)
  show ?thesis
    unfolding adjusted_probabilities_def assms
    using nz d by (simp add: bind_err_def py_div_def Let_def del: of_int_add)
qed

lemma py_round_bounds: "of_int (py_round x) - 1 / 2 \<le> x \<and> x \<le> of_int (py_round x) + 1 / 2"
proof -
  define f where "f = \<lfloor>x\<rfloor>"
  have "of_int f \<le> x" "x < of_int f + 1" unfolding f_def by linarith+
  then show ?thesis
    unfolding py_round_def Let_def f_def [symmetric] by auto
qed

lemma round_nd1_close: "\<bar>round_nd x 1 - x\<bar> \<le> 1 / 20"
proof -
  define r :: rat where "r = of_int (py_round (x * 10))"
  have b: "r - 1 / 2 \<le> x * 10" "x * 10 \<le> r + 1 / 2"
    using py_round_bounds [of "x * 10"] by (simp_all add: r_def)
  have e: "round_nd x 1 = r / 10" by (simp add: round_nd_def r_def)
  have "\<bar>r / 10 - x\<bar> \<le> 1 / 20" using b by linarith
  then show ?thesis by (simp only: e)
qed

lemma py_round_mono: "x \<le> y \<Longrightarrow> py_round x \<le> py_round y"
proof -
  assume xy: "x \<le> y"
  then have fl: "\<lfloor>x\<rfloor> \<le> \<lfloor>y\<rfloor>" by (rule floor_mono)
  have bx: "of_int \<lfloor>x\<rfloor> \<le> x" "x < of_int \<lfloor>x\<rfloor> + 1" by linarith+
  have yb: "of_int \<lfloor>y\<rfloor> \<le> y" "y < of_int \<lfloor>y\<rfloor> + 1" by linarith+
  show ?thesis
  proof (cases "\<lfloor>x\<rfloor> = \<lfloor>y\<rfloor>")
    case True
    with xy show ?thesis by (auto simp: py_round_def Let_def)
  next
    case False
    with fl have lt: "\<lfloor>x\<rfloor> + 1 \<le> \<lfloor>y\<rfloor>" by simp
    have "py_round x \<le> \<lfloor>x\<rfloor> + 1" by (simp add: py_round_def Let_def)
    moreover have "\<lfloor>y\<rfloor> \<le> py_round y" by (simp add: py_round_def Let_def)
    ultimately show ?thesis using lt by linarith
  qed
qed

lemma round_nd_mono: "x \<le> y \<Longrightarrow> round_nd x n \<le> round_nd y n"
  by (simp add: round_nd_def py_round_mono divide_right_mono)

lemma round_nd_max: "round_nd (max x y) n = max (round_nd x n) (round_nd y n)"
proof (cases "x \<le> y")
  case True
  from round_nd_mono [OF True, of n] True show ?thesis by (simp add: max_def)
next
  case False
  then have "y \<le> x" by simp
  from round_nd_mono [OF this, of n] False show ?thesis by (auto simp: max_def)
qed

lemma py_round_of_int: "py_round (of_int k) = k"
  by (simp add: py_round_def)

lemma round_nd_20: "round_nd 20 1 = 20"
  by (simp add: round_nd_def py_round_def)

section \<open>The football estimator in closed form\<close>

lemma predict_two_way:
  assumes "hp + ap = 260 / 3"
  shows "predict hp 20 ap = (if hp > ap then ''1'' else ''2'')"
  using assms by (auto simp: predict_def)

lemma side_prob_sum:
  assumes "0 < x + y"
  shows "side_prob x y + side_prob y x = 260 / 3"
proof -
  have "side_prob x y + side_prob y x =
      (of_int x / of_int (x + y) * 100 + of_int y / of_int (x + y) * 100) - 40 / 3"
    by (simp add: side_prob_def add.commute)
  also have "\<dots> = 100 - 40 / 3" by (simp only: share_sum [OF assms])
  finally show ?thesis by simp
qed

lemma adjusted_probabilities_side:
  assumes "match_scores h a = (x, y)"
  shows "adjusted_probabilities h a = Inr (side_prob x y, 20, side_prob y x)"
  by (simp add: adjusted_probabilities_eq [OF assms] side_prob_def add.commute)

lemma football_analyze_match_eq:
  assumes ms: "match_scores h a = (x, y)"
  shows "football_analyze_match h a e =
    Inr \<lparr>probabilities =
           \<lparr>home = round_nd (side_prob x y) 1, draw = 20, away = round_nd (side_prob y x) 1\<rparr>,
         prediction = (if side_prob x y > side_prob y x then ''1'' else ''2''),
         confidence = round_nd (max (side_prob x y) (side_prob y x)) 1,
         goals =
           \<lparr>goals_home = max 0 (py_round (of_int x / 100 * 3)),
            goals_away = max 0 (py_round (of_int y / 100 * 2))\<rparr>,
         value_bet =
           \<lparr>market = ''Match Result'',
            selection = (if side_prob x y > side_prob y x then ''1'' else ''2''),
            odds = round_nd (1 / (max (side_prob x y) (side_prob y x) / 100)) 2,
            edge = round_nd e 1\<rparr>\<rparr>"
proof -
  define hp where "hp = side_prob x y"
  define ap where "ap = side_prob y x"
  from match_scores_range [OF ms] have pos: "0 < x + y" by simp
  have sum: "hp + ap = 260 / 3" unfolding hp_def ap_def by (rule side_prob_sum [OF pos])
  have pr: "predict hp 20 ap = (if hp > ap then ''1'' else ''2'')"
    by (rule predict_two_way [OF sum])
  have big: "20 < max hp ap" using sum by linarith
  have conf: "max hp (max 20 ap) = max hp ap" using big by linarith
  have chosen: "(if (if hp > ap then ''1'' else ''2'') = ''1'' then hp
        else if (if hp > ap then ''1'' else ''2'') = ''X'' then 20 else ap) = max hp ap"
    by (simp add: max_def)
  show ?thesis
  proof (cases "hp > ap")
    case True
    then have m: "max hp ap = hp" by simp
    with big have nz: "hp \<noteq> 0" by simp
    show ?thesis
      unfolding football_analyze_match_def adjusted_probabilities_side [OF ms] ms
        hp_def [symmetric] ap_def [symmetric]
      using True nz
      by (simp add: bind_err_def Let_def pr conf m py_div_def round_nd_20 del: One_nat_def)
  next
    case False
    then have m: "max hp ap = ap" by simp
    with big have nz: "ap \<noteq> 0" by simp
    show ?thesis
      unfolding football_analyze_match_def adjusted_probabilities_side [OF ms] ms
        hp_def [symmetric] ap_def [symmetric]
      using False nz
      by (simp add: bind_err_def Let_def pr conf m py_div_def round_nd_20 del: One_nat_def)
  qed
qed

lemma bot_analyze_match_eq: "bot_analyze_match h a e = football_analyze_match h a e"
  by (simp only: bot_analyze_match_def football_analyze_match_def)

lemma spec_estimate_eq:
  assumes ms: "match_scores a b = (x, y)"
  shows "spec_estimate a b =
    \<lparr>prob_a = side_prob x y, prob_draw = 20, prob_b = side_prob y x,
     outcome = (if side_prob x y > side_prob y x then HomeWin else AwayWin),
     est_confidence = max (side_prob x y) (side_prob y x)\<rparr>"
proof -
  define hp where "hp = side_prob x y"
  define ap where "ap = side_prob y x"
  from match_scores_range [OF ms] have pos: "0 < x + y" by simp
  have sum: "hp + ap = 260 / 3" unfolding hp_def ap_def by (rule side_prob_sum [OF pos])
  have big: "20 < max hp ap" using sum by linarith
  have r: "0 \<le> raw_score a" "0 \<le> raw_score b" using raw_score_range by auto
  then have z: "(raw_score a = 0 \<and> raw_score b = 0) = (raw_score a + raw_score b = 0)" by linarith
  have sc: "(if raw_score a = 0 \<and> raw_score b = 0 then 50 else raw_score a) = x"
       "(if raw_score a = 0 \<and> raw_score b = 0 then 50 else raw_score b) = y"
    using ms unfolding z by (auto simp: match_scores_def Let_def split: if_splits)
  have d: "max (20::rat) (100 - of_int x / of_int (x + y) * 100 - of_int y / of_int (x + y) * 100) = 20"
    using share_sum [OF pos] by (simp add: max_def)
  have e1: "of_int x / of_int (x + y) * 100 - 20 / 3 = hp"
    and e2: "of_int y / of_int (x + y) * 100 - 20 / 3 = ap"
    by (simp_all add: hp_def ap_def side_prob_def add.commute)
  have out: "(if hp > 20 \<and> hp > ap then HomeWin else if 20 > hp \<and> 20 > ap then Draw else AwayWin)
      = (if hp > ap then HomeWin else AwayWin)"
    using sum by auto
  have "Max {hp, 20, ap} = max hp (max 20 ap)" by simp
  also have "\<dots> = max hp ap" using big by linarith
  finally have mx: "Max {hp, 20, ap} = max hp ap" .
  show ?thesis
    unfolding spec_estimate_def raw_score_def [symmetric] Let_def sc d e1 e2 out mx
      hp_def [symmetric] ap_def [symmetric]
    by simp
qed

section \<open>The football estimator at two inputs\<close>

lemma scores_Inter_Milan: "match_scores ''Inter'' ''Milan'' = (46, 29)"
  by code_simp

lemma scores_d_a: "match_scores ''d'' ''a'' = (0, 97)"
  by code_simp

lemma round_nd_values:
  "round_nd (side_prob 46 29) 1 = 547 / 10"
  "round_nd (side_prob 29 46) 1 = 32"
  "round_nd (side_prob 0 97) 1 = - (67 / 10)"
  "round_nd (side_prob 97 0) 1 = 933 / 10"
  "round_nd (1 / (side_prob 46 29 / 100)) 2 = 183 / 100"
  "round_nd (1 / (side_prob 97 0 / 100)) 2 = 107 / 100"
  by code_simp+

lemma Inter_Milan_result:
  "football_analyze_match ''Inter'' ''Milan'' e =
    Inr \<lparr>probabilities = \<lparr>home = 547 / 10, draw = 20, away = 32\<rparr>,
         prediction = ''1'',
         confidence = 547 / 10,
         goals = \<lparr>goals_home = 1, goals_away = 1\<rparr>,
         value_bet = \<lparr>market = ''Match Result'', selection = ''1'',
                      odds = 183 / 100, edge = round_nd e 1\<rparr>\<rparr>"
proof -
  have lt: "side_prob 29 46 < side_prob 46 29" by (simp add: side_prob_def)
  then have m: "max (side_prob 46 29) (side_prob 29 46) = side_prob 46 29" by simp
  have g: "max 0 (py_round (of_int 46 / 100 * 3)) = 1" "max 0 (py_round (of_int 29 / 100 * 2)) = 1"
    by code_simp+
  show ?thesis
    unfolding football_analyze_match_eq [OF scores_Inter_Milan] m g round_nd_values
    using lt by simp
qed

lemma d_a_result:
  "football_analyze_match ''d'' ''a'' e =
    Inr \<lparr>probabilities = \<lparr>home = - (67 / 10), draw = 20, away = 933 / 10\<rparr>,
         prediction = ''2'',
         confidence = 933 / 10,
         goals = \<lparr>goals_home = 0, goals_away = 2\<rparr>,
         value_bet = \<lparr>market = ''Match Result'', selection = ''2'',
                      odds = 107 / 100, edge = round_nd e 1\<rparr>\<rparr>"
proof -
  have lt: "side_prob 0 97 < side_prob 97 0" by (simp add: side_prob_def)
  then have m: "max (side_prob 0 97) (side_prob 97 0) = side_prob 97 0" by simp
  have g: "max 0 (py_round (of_int 0 / 100 * 3)) = 0" "max 0 (py_round (of_int 97 / 100 * 2)) = 2"
    by code_simp+
  show ?thesis
    unfolding football_analyze_match_eq [OF scores_d_a] m g round_nd_values
    using lt by simp
qed

lemma side_prob_lower:
  assumes "0 \<le> x" "0 \<le> y" "0 < x + y"
  shows "- (20 / 3) \<le> side_prob x y"
proof -
  have "0 \<le> (of_int x :: rat) / of_int (x + y) * 100"
    using assms by (simp del: of_int_add)
  then show ?thesis by (simp add: side_prob_def del: of_int_add)
qed

lemma side_prob_nonneg_iff:
  assumes "0 < x + y"
  shows "(0 \<le> side_prob x y) = (x + y \<le> 15 * x)"
proof -
  have pos: "(0::rat) < of_int (x + y)" using assms by simp
  have "(0 \<le> side_prob x y) = (20 / 3 \<le> (of_int x :: rat) * 100 / of_int (x + y))"
    by (simp add: side_prob_def del: of_int_add)
  also have "\<dots> = (20 / 3 * of_int (x + y) \<le> (of_int x :: rat) * 100)"
    using pos by (simp add: pos_le_divide_eq del: of_int_add)
  also have "\<dots> = ((of_int (x + y) :: rat) \<le> of_int (15 * x))"
    by (simp del: of_int_add) 
  also have "\<dots> = (x + y \<le> 15 * x)" by (simp only: of_int_le_iff)
  finally show ?thesis .
qed

section \<open>Claims about the football estimator\<close>

text \<open>
  Claim C10, as stated, at \<open>("Inter", "Milan")\<close>: the three probabilities the function
  returns are 54.7, 20 and 32, and their sum 106.7 is not 320/3.
\<close>

theorem football_returned_sum_counterexample:
  "map_sum id (\<lambda>r. home (probabilities r) + draw (probabilities r) + away (probabilities r))
       (football_analyze_match ''Inter'' ''Milan'' 5) = Inr (1067 / 10)
   \<and> map_sum id (\<lambda>r. home (probabilities r) + draw (probabilities r) + away (probabilities r))
       (football_analyze_match ''Inter'' ''Milan'' 5) \<noteq> Inr (320 / 3)"
  by (simp add: Inter_Milan_result)

text \<open>
  Claim C10, amended: for every pair of names the draw probability is exactly 20, before
  and after rounding; the two side probabilities before rounding add up to 260/3, so the
  three add up to 320/3 and the larger side is at least 130/3; the label is never
  \<open>X\<close>; and the three returned, rounded probabilities add up to within 0.1 of 320/3.
  The same holds for the bot module's copy of the function.
\<close>

theorem football_draw_always_twenty:
  "\<exists>hp ap r. adjusted_probabilities h a = Inr (hp, 20, ap)
     \<and> hp + 20 + ap = 320 / 3
     \<and> 130 / 3 \<le> max hp ap
     \<and> football_analyze_match h a e = Inr r
     \<and> bot_analyze_match h a e = Inr r
     \<and> draw (probabilities r) = 20
     \<and> prediction r \<noteq> ''X''
     \<and> \<bar>home (probabilities r) + draw (probabilities r) + away (probabilities r) - 320 / 3\<bar> \<le> 1 / 10"
proof -
  obtain x y where ms: "match_scores h a = (x, y)" by (cases "match_scores h a")
  define hp where "hp = side_prob x y"
  define ap where "ap = side_prob y x"
  from match_scores_range [OF ms] have pos: "0 < x + y" by simp
  have sum: "hp + ap = 260 / 3" unfolding hp_def ap_def by (rule side_prob_sum [OF pos])
  have c1: "\<bar>round_nd hp 1 - hp\<bar> \<le> 1 / 20" and c2: "\<bar>round_nd ap 1 - ap\<bar> \<le> 1 / 20"
    by (rule round_nd1_close)+
  have close: "\<bar>round_nd hp 1 + 20 + round_nd ap 1 - 320 / 3\<bar> \<le> 1 / 10"
    using c1 c2 sum by linarith
  have adj: "adjusted_probabilities h a = Inr (hp, 20, ap)"
    unfolding hp_def ap_def by (rule adjusted_probabilities_side [OF ms])
  have s3: "hp + 20 + ap = 320 / 3" using sum by simp
  have mx: "130 / 3 \<le> max hp ap" using sum by linarith
  note res = football_analyze_match_eq [OF ms, of e, folded hp_def ap_def]
  show ?thesis
    apply (rule exI [of _ hp], rule exI [of _ ap])
    apply (simp only: bot_analyze_match_eq res)
    using adj s3 mx close by simp
qed

text \<open>
  Claim C2, as stated, at \<open>("d", "a")\<close>: the raw score of \<open>d\<close> is 0, the home
  probability after the adjustment is \<open>-20/3\<close>, and the function returns \<open>-6.7\<close> for it.
\<close>

theorem football_negative_probability_counterexample:
  "adjusted_probabilities ''d'' ''a'' = Inr (- (20 / 3), 20, 280 / 3)
   \<and> map_sum id (\<lambda>r. home (probabilities r)) (football_analyze_match ''d'' ''a'' 5) = Inr (- (67 / 10))
   \<and> - (20 / 3) < (0::rat) \<and> - (67 / 10) < (0::rat)"
proof -
  have "side_prob 0 97 = - (20 / 3)" "side_prob 97 0 = 280 / 3"
    by (simp_all add: side_prob_def)
  then show ?thesis
    by (simp add: adjusted_probabilities_side [OF scores_d_a] d_a_result)
qed

text \<open>
  Claim C2, amended: for every pair of names the draw probability is 20, each side
  probability after the adjustment is at least \<open>-20/3\<close> and is non-negative exactly
  when fifteen times that side's score is at least the sum of the two scores, and the three
  probabilities add up to 320/3, which is not 100 and is within 20/3 of it.
\<close>

theorem football_probability_bounds:
  "\<exists>hp ap. adjusted_probabilities h a = Inr (hp, 20, ap)
     \<and> - (20 / 3) \<le> hp \<and> - (20 / 3) \<le> ap
     \<and> (0 \<le> hp) = (fst (match_scores h a) + snd (match_scores h a) \<le> 15 * fst (match_scores h a))
     \<and> (0 \<le> ap) = (fst (match_scores h a) + snd (match_scores h a) \<le> 15 * snd (match_scores h a))
     \<and> hp + 20 + ap = 320 / 3
     \<and> hp + 20 + ap \<noteq> 100
     \<and> \<bar>hp + 20 + ap - 100\<bar> \<le> 20 / 3"
proof -
  obtain x y where ms: "match_scores h a = (x, y)" by (cases "match_scores h a")
  define hp where "hp = side_prob x y"
  define ap where "ap = side_prob y x"
  from match_scores_range [OF ms] have pos: "0 < x + y" and nn: "0 \<le> x" "0 \<le> y" by simp_all
  have pos': "0 < y + x" using pos by simp
  have sum: "hp + ap = 260 / 3" unfolding hp_def ap_def by (rule side_prob_sum [OF pos])
  have adj: "adjusted_probabilities h a = Inr (hp, 20, ap)"
    unfolding hp_def ap_def by (rule adjusted_probabilities_side [OF ms])
  have l1: "- (20 / 3) \<le> hp" unfolding hp_def by (rule side_prob_lower [OF nn pos])
  have l2: "- (20 / 3) \<le> ap" unfolding ap_def by (rule side_prob_lower [OF nn(2) nn(1) pos'])
  have i1: "(0 \<le> hp) = (x + y \<le> 15 * x)" unfolding hp_def by (rule side_prob_nonneg_iff [OF pos])
  have i2: "(0 \<le> ap) = (x + y \<le> 15 * y)"
    unfolding ap_def using side_prob_nonneg_iff [OF pos'] by (simp add: add.commute)
  have s3: "hp + 20 + ap = 320 / 3" using sum by simp
  show ?thesis
    apply (rule exI [of _ hp], rule exI [of _ ap])
    using adj l1 l2 i1 i2 s3 by (simp add: ms)
qed

lemma spec_Inter_Milan:
  "spec_estimate ''Inter'' ''Milan'' =
     \<lparr>prob_a = 164 / 3, prob_draw = 20, prob_b = 32, outcome = HomeWin, est_confidence = 164 / 3\<rparr>"
proof -
  have v: "side_prob 46 29 = 164 / 3" "side_prob 29 46 = 32"
    by (simp_all add: side_prob_def)
  show ?thesis unfolding spec_estimate_eq [OF scores_Inter_Milan] v by simp
qed

text \<open>
  Claim C1, as stated, at \<open>("Inter", "Milan")\<close>: the formula of the claim gives the home
  probability 164/3, and the function returns 54.7, the value rounded to one decimal place.
\<close>

theorem football_formula_counterexample:
  "map_sum id (\<lambda>r. home (probabilities r)) (football_analyze_match ''Inter'' ''Milan'' 5)
      = Inr (547 / 10)
   \<and> prob_a (spec_estimate ''Inter'' ''Milan'') = 164 / 3
   \<and> map_sum id (\<lambda>r. home (probabilities r)) (football_analyze_match ''Inter'' ''Milan'' 5)
      \<noteq> Inr (prob_a (spec_estimate ''Inter'' ''Milan''))"
  by (simp add: Inter_Milan_result spec_Inter_Milan)

text \<open>
  Claim C1, amended: for every pair of names (the empty name included) the function returns
  a result. Its label is the label of the specification's formula, its draw probability is
  the formula's (20), and its home probability, away probability and confidence are the
  formula's values given to one decimal place: each is within 0.1 of the formula's value,
  not equal to it. The returned confidence is the greatest of the three returned
  probabilities. On \<open>("Inter", "Milan")\<close> the raw scores are 46 and 29, the formula
  gives 164/3, 20 and 32 with the home win and the confidence 164/3, and the function
  returns 54.7, 20 and 32, the label \<open>1\<close> and the confidence 54.7. The bot module's copy
  returns the same result.
\<close>

theorem football_formula_rounded:
  "(\<exists>r. football_analyze_match a b e = Inr r
      \<and> bot_analyze_match a b e = Inr r
      \<and> \<bar>home (probabilities r) - prob_a (spec_estimate a b)\<bar> \<le> 1 / 10
      \<and> draw (probabilities r) = prob_draw (spec_estimate a b)
      \<and> \<bar>away (probabilities r) - prob_b (spec_estimate a b)\<bar> \<le> 1 / 10
      \<and> prediction r = label_of (outcome (spec_estimate a b))
      \<and> \<bar>confidence r - est_confidence (spec_estimate a b)\<bar> \<le> 1 / 10
      \<and> confidence r =
          Max {home (probabilities r), draw (probabilities r), away (probabilities r)})
   \<and> raw_score ''Inter'' = 46 \<and> raw_score ''Milan'' = 29
   \<and> spec_estimate ''Inter'' ''Milan'' =
        \<lparr>prob_a = 164 / 3, prob_draw = 20, prob_b = 32, outcome = HomeWin,
         est_confidence = 164 / 3\<rparr>
   \<and> (\<exists>r. football_analyze_match ''Inter'' ''Milan'' e = Inr r
        \<and> bot_analyze_match ''Inter'' ''Milan'' e = Inr r
        \<and> probabilities r = \<lparr>home = 547 / 10, draw = 20, away = 32\<rparr>
        \<and> prediction r = ''1''
        \<and> confidence r = 547 / 10)"
proof -
  obtain x y where ms: "match_scores a b = (x, y)" by (cases "match_scores a b")
  define hp where "hp = side_prob x y"
  define ap where "ap = side_prob y x"
  from match_scores_range [OF ms] have pos: "0 < x + y" by simp
  have sum: "hp + ap = 260 / 3" unfolding hp_def ap_def by (rule side_prob_sum [OF pos])
  have big: "20 < max hp ap" using sum by linarith
  note res = football_analyze_match_eq [OF ms, of e, folded hp_def ap_def]
  note spec = spec_estimate_eq [OF ms, folded hp_def ap_def]
  have "max hp ap = max hp (max 20 ap)" using big by linarith
  then have "round_nd (max hp ap) 1 = round_nd (max hp (max 20 ap)) 1" by (rule arg_cong)
  also have "\<dots> = max (round_nd hp 1) (max (round_nd 20 1) (round_nd ap 1))"
    by (simp only: round_nd_max)
  finally have cm: "round_nd (max hp ap) 1 = Max {round_nd hp 1, 20, round_nd ap 1}"
    by (simp add: round_nd_20 del: One_nat_def)
  have c1: "\<bar>round_nd hp 1 - hp\<bar> \<le> 1 / 10" and c2: "\<bar>round_nd ap 1 - ap\<bar> \<le> 1 / 10"
    and c3: "\<bar>round_nd (max hp ap) 1 - max hp ap\<bar> \<le> 1 / 10"
    using round_nd1_close [of hp] round_nd1_close [of ap] round_nd1_close [of "max hp ap"]
    by linarith+
  obtain r where r: "football_analyze_match a b e = Inr r"
    and rh: "home (probabilities r) = round_nd hp 1"
    and rd: "draw (probabilities r) = 20"
    and ra: "away (probabilities r) = round_nd ap 1"
    and rp: "prediction r = (if hp > ap then ''1'' else ''2'')"
    and rc: "confidence r = round_nd (max hp ap) 1"
    by (simp add: res)
  have sa: "prob_a (spec_estimate a b) = hp" and sd: "prob_draw (spec_estimate a b) = 20"
    and sb: "prob_b (spec_estimate a b) = ap"
    and so: "label_of (outcome (spec_estimate a b)) = (if hp > ap then ''1'' else ''2'')"
    and sc: "est_confidence (spec_estimate a b) = max hp ap"
    by (simp_all add: spec label_of_def)
  have g1: "bot_analyze_match a b e = Inr r" by (simp only: bot_analyze_match_eq r)
  have g2: "\<bar>home (probabilities r) - prob_a (spec_estimate a b)\<bar> \<le> 1 / 10"
    unfolding rh sa by (rule c1)
  have g3: "draw (probabilities r) = prob_draw (spec_estimate a b)" by (simp only: rd sd)
  have g4: "\<bar>away (probabilities r) - prob_b (spec_estimate a b)\<bar> \<le> 1 / 10"
    unfolding ra sb by (rule c2)
  have g5: "prediction r = label_of (outcome (spec_estimate a b))" by (simp only: rp so)
  have g6: "\<bar>confidence r - est_confidence (spec_estimate a b)\<bar> \<le> 1 / 10"
    unfolding rc sc by (rule c3)
  have g7: "confidence r =
      Max {home (probabilities r), draw (probabilities r), away (probabilities r)}"
    unfolding rc rh rd ra by (rule cm)
  from r g1 g2 g3 g4 g5 g6 g7
  have general: "\<exists>r. football_analyze_match a b e = Inr r
      \<and> bot_analyze_match a b e = Inr r
      \<and> \<bar>home (probabilities r) - prob_a (spec_estimate a b)\<bar> \<le> 1 / 10
      \<and> draw (probabilities r) = prob_draw (spec_estimate a b)
      \<and> \<bar>away (probabilities r) - prob_b (spec_estimate a b)\<bar> \<le> 1 / 10
      \<and> prediction r = label_of (outcome (spec_estimate a b))
      \<and> \<bar>confidence r - est_confidence (spec_estimate a b)\<bar> \<le> 1 / 10
      \<and> confidence r =
          Max {home (probabilities r), draw (probabilities r), away (probabilities r)}"
    by blast
  have rs: "raw_score ''Inter'' = 46" "raw_score ''Milan'' = 29" by code_simp+
  have im: "\<exists>r. football_analyze_match ''Inter'' ''Milan'' e = Inr r
        \<and> bot_analyze_match ''Inter'' ''Milan'' e = Inr r
        \<and> probabilities r = \<lparr>home = 547 / 10, draw = 20, away = 32\<rparr>
        \<and> prediction r = ''1''
        \<and> confidence r = 547 / 10"
    by (simp add: bot_analyze_match_eq Inter_Milan_result)
  from general rs spec_Inter_Milan im show ?thesis by blast
qed

section \<open>The tennis and basketball estimators in closed form\<close>

lemma tennis_normalized_eq:
  assumes ms: "match_scores p1 p2 = (x, y)"
  shows "tennis_normalized p1 p2 adj =
    Inr (of_int x / of_int (x + y) * 100 + adj, of_int y / of_int (x + y) * 100 - adj)"
proof -
  define qh :: rat where "qh = of_int x / of_int (x + y)"
  define qa :: rat where "qa = of_int y / of_int (x + y)"
  from match_scores_range [OF ms] have pos: "0 < x + y" by simp
  then have nz: "(of_int (x + y) :: rat) \<noteq> 0" by simp
  have q: "py_div (of_int x) (of_int (x + y)) = Inr qh"
      "py_div (of_int y) (of_int (x + y)) = Inr qa"
    using nz by (simp_all add: py_div_def qh_def qa_def del: of_int_add)
  have sum: "qh * 100 + qa * 100 = 100"
    unfolding qh_def qa_def by (rule share_sum [OF pos])
  have tp: "qh * 100 + adj + (qa * 100 - adj) = 100" using sum by simp
  have "tennis_normalized p1 p2 adj =
      bind_err (py_div (qh * 100 + adj) 100) (\<lambda>n1.
      bind_err (py_div (qa * 100 - adj) 100) (\<lambda>n2. Inr (n1 * 100, n2 * 100)))"
    unfolding tennis_normalized_def match_scores_def [symmetric]
    unfolding ms prod.case Let_def q bind_err_def sum.case tp ..
  also have "\<dots> = Inr (qh * 100 + adj, qa * 100 - adj)"
    by (simp add: bind_err_def py_div_def)
  finally show ?thesis by (simp only: qh_def qa_def)
qed

lemma tennis_analyze_match_total:
  "\<exists>n1 n2 r. tennis_normalized p1 p2 (adjustment rnd) = Inr (n1, n2)
     \<and> n1 + n2 = 100
     \<and> tennis_analyze_match p1 p2 rnd = Inr r
     \<and> player1_prob (tn_probabilities r) = round_nd n1 1
     \<and> player2_prob (tn_probabilities r) = round_nd n2 1"
proof -
  obtain x y where ms: "match_scores p1 p2 = (x, y)" by (cases "match_scores p1 p2")
  from match_scores_range [OF ms] have pos: "0 < x + y" by simp
  define n1 :: rat where "n1 = of_int x / of_int (x + y) * 100 + adjustment rnd"
  define n2 :: rat where "n2 = of_int y / of_int (x + y) * 100 - adjustment rnd"
  have nm: "tennis_normalized p1 p2 (adjustment rnd) = Inr (n1, n2)"
    unfolding n1_def n2_def by (rule tennis_normalized_eq [OF ms])
  have "n1 + n2 = of_int x / of_int (x + y) * 100 + of_int y / of_int (x + y) * 100"
    by (simp add: n1_def n2_def)
  then have sum: "n1 + n2 = 100" by (simp only: share_sum [OF pos])
  show ?thesis
    apply (rule exI [of _ n1], rule exI [of _ n2])
    using sum by (simp add: tennis_analyze_match_def nm bind_err_def Let_def del: One_nat_def)
qed

lemma basketball_scores_range:
  assumes "basketball_scores h a = (x, y)"
  shows "x = raw_score h + 10 \<and> y = raw_score a \<and> 10 \<le> x \<and> 0 \<le> y \<and> 0 < x + y"
  using assms raw_score_range [of h] raw_score_range [of a]
  by (auto simp: basketball_scores_def Let_def)

lemma basketball_analyze_match_eq:
  assumes bs: "basketball_scores h a = (x, y)"
  shows "basketball_analyze_match h a rnd =
    Inr \<lparr>home_team = h, away_team = a,
         bk_probabilities =
           \<lparr>bk_home = round_nd (of_int x / of_int (x + y) * 100) 1,
            bk_away = round_nd (of_int y / of_int (x + y) * 100) 1\<rparr>,
         bk_predicted_winner =
           (if of_int x / of_int (x + y) * 100 > (of_int y / of_int (x + y) * 100 :: rat) then h else a),
         bk_confidence =
           round_nd (max (of_int x / of_int (x + y) * 100) (of_int y / of_int (x + y) * 100)) 1,
         spread =
           (if (if of_int x / of_int (x + y) * 100 > (of_int y / of_int (x + y) * 100 :: rat)
                then h else a) = a then ''+'' else ''-'', spread_draw rnd),
         total_points = total_points_draw rnd,
         keys = [''Rebound Control'', ''3-Point Percentage'', ''Turnover Margin'']\<rparr>"
proof -
  define qh :: rat where "qh = of_int x / of_int (x + y)"
  define qa :: rat where "qa = of_int y / of_int (x + y)"
  from basketball_scores_range [OF bs] have pos: "0 < x + y" by simp
  then have nz: "(of_int (x + y) :: rat) \<noteq> 0" by simp
  have q: "py_div (of_int x) (of_int (x + y)) = Inr qh"
      "py_div (of_int y) (of_int (x + y)) = Inr qa"
    using nz by (simp_all add: py_div_def qh_def qa_def del: of_int_add)
  show ?thesis
    unfolding basketball_analyze_match_def bs prod.case Let_def q bind_err_def sum.case
      qh_def [symmetric] qa_def [symmetric] ..
qed

section \<open>Claims about the tennis and basketball estimators\<close>

text \<open>
  Claim C4: the home score before normalisation is the raw score plus 10 and the away score
  is the raw score, and the returned probabilities are the two shares of their sum in per
  cent, given to one decimal place (each within 0.1 of the share). For two equal names the
  function returns a home probability above 50 (and an away probability below 50, the home
  name as winner). The probabilities, the winner and the confidence do not depend on the
  random draws, which only fill the spread and the total points.
\<close>

theorem basketball_home_bonus:
  "fst (basketball_scores h a) = raw_score h + 10
   \<and> snd (basketball_scores h a) = raw_score a
   \<and> (\<exists>r. basketball_analyze_match h a rnd = Inr r
         \<and> \<bar>bk_home (bk_probabilities r) -
             of_int (raw_score h + 10) / of_int (raw_score h + 10 + raw_score a) * 100\<bar> \<le> 1 / 10
         \<and> \<bar>bk_away (bk_probabilities r) -
             of_int (raw_score a) / of_int (raw_score h + 10 + raw_score a) * 100\<bar> \<le> 1 / 10)
   \<and> (\<exists>r. basketball_analyze_match n n rnd = Inr r
         \<and> 50 < bk_home (bk_probabilities r)
         \<and> bk_away (bk_probabilities r) < 50
         \<and> bk_predicted_winner r = n)
   \<and> map_sum id bk_probabilities (basketball_analyze_match h a rnd)
       = map_sum id bk_probabilities (basketball_analyze_match h a rnd')
   \<and> map_sum id bk_predicted_winner (basketball_analyze_match h a rnd)
       = map_sum id bk_predicted_winner (basketball_analyze_match h a rnd')
   \<and> map_sum id bk_confidence (basketball_analyze_match h a rnd)
       = map_sum id bk_confidence (basketball_analyze_match h a rnd')"
proof -
  have bs: "basketball_scores h a = (raw_score h + 10, raw_score a)"
    by (simp add: basketball_scores_def)
  have bn: "basketball_scores n n = (raw_score n + 10, raw_score n)"
    by (simp add: basketball_scores_def)
  define s where "s = raw_score n"
  have sr: "0 \<le> s" "s < 100" using raw_score_range [of n] by (simp_all add: s_def)
  define t :: rat where "t = of_int (s + 10 + s)"
  have tpos: "0 < t" using sr by (simp add: t_def)
  have "52 * t \<le> of_int (s + 10) * 100"
  proof -
    have "52 * (s + 10 + s) \<le> (s + 10) * 100" using sr by simp
    then have "(of_int (52 * (s + 10 + s)) :: rat) \<le> of_int ((s + 10) * 100)"
      by (simp only: of_int_le_iff)
    then show ?thesis by (simp add: t_def)
  qed
  then have hb: "52 \<le> of_int (s + 10) / t * 100"
    using tpos by (simp add: pos_le_divide_eq)
  have "of_int s * 100 \<le> 48 * t"
  proof -
    have "s * 100 \<le> 48 * (s + 10 + s)" using sr by simp
    then have "(of_int (s * 100) :: rat) \<le> of_int (48 * (s + 10 + s))"
      by (simp only: of_int_le_iff)
    then show ?thesis by (simp add: t_def)
  qed
  then have ab: "of_int s / t * 100 \<le> 48"
    using tpos by (simp add: pos_divide_le_eq)
  have c1: "\<bar>round_nd (of_int (s + 10) / t * 100) 1 - of_int (s + 10) / t * 100\<bar> \<le> 1 / 20"
    and c2: "\<bar>round_nd (of_int s / t * 100) 1 - of_int s / t * 100\<bar> \<le> 1 / 20"
    by (rule round_nd1_close)+
  have r1: "50 < round_nd (of_int (s + 10) / t * 100) 1" using hb c1 by linarith
  have r2: "round_nd (of_int s / t * 100) 1 < 50" using ab c2 by linarith
  have gt: "of_int s / t * 100 < of_int (s + 10) / t * 100" using hb ab by linarith
  have equal: "\<exists>r. basketball_analyze_match n n rnd = Inr r
         \<and> 50 < bk_home (bk_probabilities r)
         \<and> bk_away (bk_probabilities r) < 50
         \<and> bk_predicted_winner r = n"
    unfolding basketball_analyze_match_eq [OF bn] s_def [symmetric] t_def [symmetric]
    using r1 r2 gt by simp
  have g1: "\<bar>round_nd (of_int (raw_score h + 10) / of_int (raw_score h + 10 + raw_score a) * 100) 1
        - of_int (raw_score h + 10) / of_int (raw_score h + 10 + raw_score a) * 100\<bar> \<le> 1 / 10"
    using round_nd1_close
      [of "of_int (raw_score h + 10) / of_int (raw_score h + 10 + raw_score a) * 100"]
    by linarith
  have g2: "\<bar>round_nd (of_int (raw_score a) / of_int (raw_score h + 10 + raw_score a) * 100) 1
        - of_int (raw_score a) / of_int (raw_score h + 10 + raw_score a) * 100\<bar> \<le> 1 / 10"
    using round_nd1_close
      [of "of_int (raw_score a) / of_int (raw_score h + 10 + raw_score a) * 100"]
    by linarith
  have shares: "\<exists>r. basketball_analyze_match h a rnd = Inr r
         \<and> \<bar>bk_home (bk_probabilities r) -
             of_int (raw_score h + 10) / of_int (raw_score h + 10 + raw_score a) * 100\<bar> \<le> 1 / 10
         \<and> \<bar>bk_away (bk_probabilities r) -
             of_int (raw_score a) / of_int (raw_score h + 10 + raw_score a) * 100\<bar> \<le> 1 / 10"
  proof -
    obtain r where r: "basketball_analyze_match h a rnd = Inr r"
      and rh: "bk_home (bk_probabilities r) =
          round_nd (of_int (raw_score h + 10) / of_int (raw_score h + 10 + raw_score a) * 100) 1"
      and ra: "bk_away (bk_probabilities r) =
          round_nd (of_int (raw_score a) / of_int (raw_score h + 10 + raw_score a) * 100) 1"
      by (simp add: basketball_analyze_match_eq [OF bs] del: of_int_add One_nat_def)
    have h1: "\<bar>bk_home (bk_probabilities r) -
             of_int (raw_score h + 10) / of_int (raw_score h + 10 + raw_score a) * 100\<bar> \<le> 1 / 10"
      unfolding rh by (rule g1)
    have h2: "\<bar>bk_away (bk_probabilities r) -
             of_int (raw_score a) / of_int (raw_score h + 10 + raw_score a) * 100\<bar> \<le> 1 / 10"
      unfolding ra by (rule g2)
    from r h1 h2 show ?thesis by blast
  qed
  have indep: "map_sum id bk_probabilities (basketball_analyze_match h a rnd)
       = map_sum id bk_probabilities (basketball_analyze_match h a rnd')"
      "map_sum id bk_predicted_winner (basketball_analyze_match h a rnd)
       = map_sum id bk_predicted_winner (basketball_analyze_match h a rnd')"
      "map_sum id bk_confidence (basketball_analyze_match h a rnd)
       = map_sum id bk_confidence (basketball_analyze_match h a rnd')"
    unfolding basketball_analyze_match_eq [OF bs] by simp_all
  have sc: "fst (basketball_scores h a) = raw_score h + 10"
      "snd (basketball_scores h a) = raw_score a"
    by (simp_all add: bs)
  from sc shares equal indep show ?thesis by blast
qed

text \<open>
  Claim C9: for every pair of strings, the empty string included, and for every value of
  the random draws, each estimator returns a result and raises nothing. The raw score of
  the empty name is 0; two empty names are scored 50 and 50 by football and tennis, and 10
  and 0 by basketball, whose home bonus keeps the divisor positive.
\<close>

theorem estimators_never_raise:
  "(\<exists>r. football_analyze_match a b e = Inr r)
   \<and> (\<exists>r. bot_analyze_match a b e = Inr r)
   \<and> (\<exists>r. tennis_analyze_match a b trnd = Inr r)
   \<and> (\<exists>r. basketball_analyze_match a b brnd = Inr r)
   \<and> raw_score [] = 0
   \<and> match_scores [] [] = (50, 50)
   \<and> adjusted_probabilities [] [] = Inr (130 / 3, 20, 130 / 3)
   \<and> tennis_normalized [] [] (adjustment trnd) = Inr (50 + adjustment trnd, 50 - adjustment trnd)
   \<and> basketball_scores [] [] = (10, 0)
   \<and> map_sum id bk_probabilities (basketball_analyze_match [] [] brnd)
       = Inr \<lparr>bk_home = 100, bk_away = 0\<rparr>"
proof -
  obtain x y where ms: "match_scores a b = (x, y)" by (cases "match_scores a b")
  obtain u v where bs: "basketball_scores a b = (u, v)" by (cases "basketball_scores a b")
  have f: "\<exists>r. football_analyze_match a b e = Inr r"
    by (simp add: football_analyze_match_eq [OF ms])
  then have g: "\<exists>r. bot_analyze_match a b e = Inr r" by (simp only: bot_analyze_match_eq)
  have t: "\<exists>r. tennis_analyze_match a b trnd = Inr r"
    using tennis_analyze_match_total [of a b trnd] by blast
  have k: "\<exists>r. basketball_analyze_match a b brnd = Inr r"
    by (simp add: basketball_analyze_match_eq [OF bs])
  have r0: "raw_score [] = 0" by (simp add: raw_score_def str_lower_def)
  have m0: "match_scores [] [] = (50, 50)" by (simp add: match_scores_def r0)
  have b0: "basketball_scores [] [] = (10, 0)" by (simp add: basketball_scores_def r0)
  have a0: "adjusted_probabilities [] [] = Inr (130 / 3, 20, 130 / 3)"
    by (simp add: adjusted_probabilities_side [OF m0] side_prob_def)
  have t0: "tennis_normalized [] [] (adjustment trnd) = Inr (50 + adjustment trnd, 50 - adjustment trnd)"
    by (simp add: tennis_normalized_eq [OF m0])
  have rv: "round_nd 100 1 = 100" "round_nd 0 1 = 0" by code_simp+
  have k0: "map_sum id bk_probabilities (basketball_analyze_match [] [] brnd)
       = Inr \<lparr>bk_home = 100, bk_away = 0\<rparr>"
    by (simp add: basketball_analyze_match_eq [OF b0] rv del: One_nat_def)
  from f g t k r0 m0 b0 a0 t0 k0 show ?thesis by blast
qed

section \<open>The user table\<close>

lemma find_map_preserved:
  assumes "\<And>x. P (g x) = P x"
  shows "find P (map g xs) = map_option g (find P xs)"
  using assms by (induction xs) auto

lemma find_append_new:
  assumes "find P xs = None" "P y"
  shows "find P (xs @ [y]) = Some y"
  using assms by (induction xs) (auto split: if_splits)

lemma filter_map_preserved:
  assumes "\<And>x. P (g x) = P x"
  shows "length (filter P (map g xs)) = length (filter P xs)"
  using assms by (induction xs) auto

lemma find_None_filter: "find P xs = None \<Longrightarrow> filter P xs = []"
  by (induction xs) (auto split: if_splits)

lemma find_Some_filter: "find P xs = Some x \<Longrightarrow> filter P xs \<noteq> [] \<and> P x \<and> x \<in> set xs"
  by (induction xs) (auto split: if_splits)

lemma get_or_create_user_absent:
  assumes "session_ok db" "find (\<lambda>u. telegram_id u = tid) (users db) = None"
    and "integer_column (integer_bits db) tid"
  shows "get_or_create_user db now later tid uname fname lname =
    Inr (\<lparr>user_id = next_user_id db, telegram_id = tid, username = uname,
           first_name = fname, last_name = lname, is_active = True,
           is_subscribed = False, is_premium = False, subscription_ends = None,
           created_at = later, last_seen = now\<rparr>,
         db\<lparr>users := users db @
              [\<lparr>user_id = next_user_id db, telegram_id = tid, username = uname,
                first_name = fname, last_name = lname, is_active = True,
                is_subscribed = False, is_premium = False, subscription_ends = None,
                created_at = later, last_seen = now\<rparr>],
            next_user_id := Suc (next_user_id db)\<rparr>)"
  using assms by (simp add: get_or_create_user_def Let_def)

lemma get_or_create_user_out_of_range:
  assumes "session_ok db" "find (\<lambda>u. telegram_id u = tid) (users db) = None"
    and "\<not> integer_column (integer_bits db) tid"
  shows "get_or_create_user db now later tid uname fname lname = Inl DataError"
  using assms by (simp add: get_or_create_user_def)

lemma get_or_create_user_present:
  assumes "session_ok db" "find (\<lambda>u. telegram_id u = tid) (users db) = Some u"
  shows "get_or_create_user db now later tid uname fname lname =
    Inr (user_change now uname fname lname u u,
         db\<lparr>users := map (\<lambda>r. if user_id r = user_id u
                                then user_change now uname fname lname u r else r) (users db)\<rparr>)"
  using assms by (simp add: get_or_create_user_def Let_def user_change_def)

lemma get_or_create_user_found_again:
  assumes c: "session_ok db"
    and g: "get_or_create_user db now later tid uname fname lname = Inr (u1, db1)"
  shows "session_ok db1 \<and> find (\<lambda>u. telegram_id u = tid) (users db1) = Some u1
     \<and> telegram_id u1 = tid
     \<and> integer_bits db1 = integer_bits db
     \<and> predictions db1 = predictions db
     \<and> tennis_predictions db1 = tennis_predictions db
     \<and> basketball_predictions db1 = basketball_predictions db
     \<and> length (filter (\<lambda>u. telegram_id u = tid) (users db1)) =
         (if filter (\<lambda>u. telegram_id u = tid) (users db) = [] then 1
          else length (filter (\<lambda>u. telegram_id u = tid) (users db)))"
proof (cases "find (\<lambda>u. telegram_id u = tid) (users db)")
  case None
  have rg: "integer_column (integer_bits db) tid"
  proof (rule ccontr)
    assume "\<not> integer_column (integer_bits db) tid"
    from get_or_create_user_out_of_range [OF c None this, of now later uname fname lname] g
    show False by simp
  qed
  note a = get_or_create_user_absent [OF c None rg, of now later uname fname lname]
  from g a have u1: "u1 = \<lparr>user_id = next_user_id db, telegram_id = tid, username = uname,
           first_name = fname, last_name = lname, is_active = True,
           is_subscribed = False, is_premium = False, subscription_ends = None,
           created_at = later, last_seen = now\<rparr>"
    and db1: "db1 = db\<lparr>users := users db @ [u1], next_user_id := Suc (next_user_id db)\<rparr>"
    by auto
  have t: "telegram_id u1 = tid" by (simp add: u1)
  have f: "find (\<lambda>u. telegram_id u = tid) (users db @ [u1]) = Some u1"
    by (rule find_append_new [OF None t])
  show ?thesis
    using c f t find_None_filter [OF None] by (simp add: db1)
next
  case (Some u)
  define g' where "g' = (\<lambda>r. if user_id r = user_id u
                                then user_change now uname fname lname u r else r)"
  note p = get_or_create_user_present [OF c Some, of now later uname fname lname, folded g'_def]
  from g p have u1: "u1 = user_change now uname fname lname u u"
    and db1: "db1 = db\<lparr>users := map g' (users db)\<rparr>"
    by auto
  have pres: "\<And>x. (telegram_id (g' x) = tid) = (telegram_id x = tid)"
    by (simp add: g'_def user_change_def)
  have gu: "g' u = u1" by (simp add: g'_def u1)
  have f: "find (\<lambda>u. telegram_id u = tid) (map g' (users db)) = Some u1"
    using find_map_preserved [of "\<lambda>u. telegram_id u = tid" g', OF pres, of "users db"] Some gu
    by simp
  have t: "telegram_id u1 = tid"
    using find_Some_filter [OF Some] by (simp add: u1 user_change_def)
  have n: "length (filter (\<lambda>u. telegram_id u = tid) (map g' (users db)))
      = length (filter (\<lambda>u. telegram_id u = tid) (users db))"
    by (rule filter_map_preserved [of "\<lambda>u. telegram_id u = tid" g', OF pres])
  show ?thesis
    using c f t n find_Some_filter [OF Some] by (simp add: db1)
qed






section \<open>Prediction statistics\<close>

lemma order_by_desc_facts:
  "mset (order_by_desc rows) = mset rows"
  "sorted (map (\<lambda>p. - pred_created_at p) (order_by_desc rows))"
  "length (order_by_desc rows) = length rows"
  by (simp_all add: order_by_desc_def)

lemma recent_facts:
  fixes mine :: "'a prediction_row list"
  assumes "recent = take 5 (order_by_desc mine)"
  shows "length recent = min 5 (length mine)"
    and "sorted (map (\<lambda>p. - pred_created_at p) recent)"
    and "\<exists>rest. mset (recent @ rest) = mset mine
           \<and> (\<forall>p\<in>set recent. \<forall>q\<in>set rest. pred_created_at q \<le> pred_created_at p)"
proof -
  define srt where "srt = order_by_desc mine"
  have s: "sorted (map (\<lambda>p. - pred_created_at p) srt)"
    and m: "mset srt = mset mine" and l: "length srt = length mine"
    unfolding srt_def by (rule order_by_desc_facts)+
  have r: "recent = take 5 srt" using assms by (simp add: srt_def)
  show "length recent = min 5 (length mine)" by (simp add: r l min.commute)
  have split: "srt = recent @ drop 5 srt" by (simp add: r)
  from s have s2: "sorted (map (\<lambda>p. - pred_created_at p) recent @ map (\<lambda>p. - pred_created_at p) (drop 5 srt))"
    by (subst (asm) split) simp
  then show "sorted (map (\<lambda>p. - pred_created_at p) recent)"
    by (simp add: sorted_append)
  from s2 have "\<forall>p\<in>set recent. \<forall>q\<in>set (drop 5 srt). pred_created_at q \<le> pred_created_at p"
    by (auto simp: sorted_append)
  moreover have "mset (recent @ drop 5 srt) = mset mine"
    using m split by metis
  ultimately show "\<exists>rest. mset (recent @ rest) = mset mine
           \<and> (\<forall>p\<in>set recent. \<forall>q\<in>set rest. pred_created_at q \<le> pred_created_at p)"
    by blast
qed

lemma table_stats_fields:
  fixes rows :: "'a prediction_row list"
  assumes "mine = filter (\<lambda>p. pred_user_id p = Some (user_id user)) rows"
  shows "table_stats rows user =
     \<lparr>total_predictions = length mine,
      correct_predictions = length (filter (\<lambda>p. is_correct p = Some True) mine),
      accuracy = round_nd (if length mine > 0
         then of_nat (length (filter (\<lambda>p. is_correct p = Some True) mine)) / of_nat (length mine) * 100
         else 0) 1,
      recent_predictions = take 5 (order_by_desc mine),
      stats_user = Some user\<rparr>"
  by (simp add: table_stats_def Let_def assms del: One_nat_def)

lemma round_nd_zero: "round_nd 0 n = 0"
  by (simp add: round_nd_def py_round_def)

lemma get_stats_cases:
  "(\<exists>e. get_or_create_user db now later tid None None None = Inl e
      \<and> get_user_stats db now later tid = (failed_stats, db)
      \<and> get_tennis_stats db now later tid = (failed_stats, db)
      \<and> get_basketball_stats db now later tid = (failed_stats, db))
   \<or> (\<exists>user db'. get_or_create_user db now later tid None None None = Inr (user, db')
      \<and> get_user_stats db now later tid = (table_stats (predictions db) user, db')
      \<and> get_tennis_stats db now later tid = (table_stats (tennis_predictions db) user, db')
      \<and> get_basketball_stats db now later tid
          = (table_stats (basketball_predictions db) user, db'))"
proof (cases "get_or_create_user db now later tid None None None")
  case (Inl e)
  then show ?thesis
    by (simp add: get_user_stats_def get_tennis_stats_def get_basketball_stats_def)
next
  case (Inr p)
  obtain user db' where p: "p = (user, db')" by (cases p)
  with Inr have g: "get_or_create_user db now later tid None None None = Inr (user, db')"
    by simp
  have c: "session_ok db"
  proof (rule ccontr)
    assume "\<not> session_ok db"
    then have "get_or_create_user db now later tid None None None = Inl OperationalError"
      by (simp add: get_or_create_user_def)
    with g show False by simp
  qed
  from get_or_create_user_found_again [OF c g]
  have "predictions db' = predictions db" "tennis_predictions db' = tennis_predictions db"
    "basketball_predictions db' = basketball_predictions db" by simp_all
  with g show ?thesis
    by (simp add: get_user_stats_def get_tennis_stats_def get_basketball_stats_def)
qed

lemma sample_user_stats:
  "fst (get_user_stats sample_db 50 51 42) =
     \<lparr>total_predictions = 3, correct_predictions = 1, accuracy = 333 / 10,
      recent_predictions =
        [\<lparr>pred_id = 2, pred_user_id = Some 1, details = (), is_correct = Some False,
          pred_created_at = 30\<rparr>,
         \<lparr>pred_id = 3, pred_user_id = Some 1, details = (), is_correct = None,
          pred_created_at = 20\<rparr>,
         \<lparr>pred_id = 1, pred_user_id = Some 1, details = (), is_correct = Some True,
          pred_created_at = 10\<rparr>],
      stats_user = Some \<lparr>user_id = 1, telegram_id = 42, username = Some ''ann'', first_name = None,
                last_name = None, is_active = True, is_subscribed = False, is_premium = False,
                subscription_ends = None, created_at = 5, last_seen = 50\<rparr>\<rparr>"
proof -
  have r: "round_nd (100 / 3) 1 = 333 / 10" by code_simp
  show ?thesis
    by (simp add: get_user_stats_def get_or_create_user_def sample_db_def table_stats_def
        order_by_desc_def py_or_def Let_def r del: One_nat_def)
qed

text \<open>
  Claim C8, as stated, on the sample database: the first user has three predictions, one
  of them correct, and the statistics return the accuracy 33.3, which is not a third of 100.
\<close>

theorem user_stats_accuracy_counterexample:
  "total_predictions (fst (get_user_stats sample_db 50 51 42)) = 3
   \<and> correct_predictions (fst (get_user_stats sample_db 50 51 42)) = 1
   \<and> accuracy (fst (get_user_stats sample_db 50 51 42)) = 333 / 10
   \<and> accuracy (fst (get_user_stats sample_db 50 51 42)) \<noteq> 1 / 3 * 100"
  by (simp add: sample_user_stats)

text \<open>
  Claim C8, amended. Each statistics method either answers an exception of
  \<open>get_or_create_user\<close> with the all-zero result, or reads its own table for the user that
  \<open>get_or_create_user\<close> returned. On a table, with \<open>mine\<close> the rows of the user: the total
  and the correct count are the two conditional counts; the returned accuracy is the
  percentage of correct rows given to one decimal place, so it is within 0.1 of the
  percentage without being equal to it, and it is 0 when there is no row; the recent list
  has at most five rows, is in descending order of creation time, holds rows of the user
  only, and every row of the user left out is no younger than any row in it. A user with no
  row of the variant gets total 0, correct 0, accuracy 0 and an empty list.
\<close>

theorem user_stats_result:
  fixes rows :: "'a prediction_row list" and db :: "('f, 't, 'b) database"
  assumes m: "mine = filter (\<lambda>p. pred_user_id p = Some (user_id user)) rows"
    and st: "st = table_stats rows user"
  shows "total_predictions st = length mine
    \<and> correct_predictions st = length (filter (\<lambda>p. is_correct p = Some True) mine)
    \<and> (total_predictions st = 0 \<longrightarrow> accuracy st = 0)
    \<and> \<bar>accuracy st -
        (if total_predictions st = 0 then 0
         else of_nat (correct_predictions st) / of_nat (total_predictions st) * 100)\<bar> \<le> 1 / 10
    \<and> length (recent_predictions st) = min 5 (length mine)
    \<and> sorted (map (\<lambda>p. - pred_created_at p) (recent_predictions st))
    \<and> (\<exists>rest. mset (recent_predictions st @ rest) = mset mine
          \<and> (\<forall>p\<in>set (recent_predictions st). \<forall>q\<in>set rest.
                pred_created_at q \<le> pred_created_at p))
    \<and> (mine = [] \<longrightarrow>
          st = \<lparr>total_predictions = 0, correct_predictions = 0, accuracy = 0,
                recent_predictions = [], stats_user = Some user\<rparr>)
    \<and> (failed_stats :: 'f user_stats) =
          \<lparr>total_predictions = 0, correct_predictions = 0, accuracy = 0,
           recent_predictions = [], stats_user = None\<rparr>
    \<and> ((\<exists>e. get_or_create_user db now later tid None None None = Inl e
          \<and> get_user_stats db now later tid = (failed_stats, db)
          \<and> get_tennis_stats db now later tid = (failed_stats, db)
          \<and> get_basketball_stats db now later tid = (failed_stats, db))
        \<or> (\<exists>u db'. get_or_create_user db now later tid None None None = Inr (u, db')
          \<and> get_user_stats db now later tid = (table_stats (predictions db) u, db')
          \<and> get_tennis_stats db now later tid = (table_stats (tennis_predictions db) u, db')
          \<and> get_basketball_stats db now later tid
              = (table_stats (basketball_predictions db) u, db')))"
proof -
  note f = table_stats_fields [OF m]
  define c where "c = length (filter (\<lambda>p. is_correct p = Some True) mine)"
  have t: "total_predictions st = length mine" and cr: "correct_predictions st = c"
    and rc: "recent_predictions st = take 5 (order_by_desc mine)"
    by (simp_all add: st f c_def)
  have acc: "accuracy st =
      (if length mine = 0 then 0 else round_nd (of_nat c / of_nat (length mine) * 100) 1)"
    by (simp add: st f c_def round_nd_zero del: One_nat_def)
  have close: "\<bar>accuracy st - (if length mine = 0 then 0 else of_nat c / of_nat (length mine) * 100)\<bar> \<le> 1 / 10"
    unfolding acc using round_nd1_close [of "of_nat c / of_nat (length mine) * 100"] by simp
  note rf = recent_facts [OF rc]
  have zero: "mine = [] \<longrightarrow>
          st = \<lparr>total_predictions = 0, correct_predictions = 0, accuracy = 0,
                recent_predictions = [], stats_user = Some user\<rparr>"
    by (simp add: st f round_nd_zero order_by_desc_def del: One_nat_def)
  have h2: "correct_predictions st = length (filter (\<lambda>p. is_correct p = Some True) mine)"
    by (simp only: cr c_def)
  have h3: "total_predictions st = 0 \<longrightarrow> accuracy st = 0"
    unfolding t by (simp add: acc)
  have h4: "\<bar>accuracy st -
        (if total_predictions st = 0 then 0
         else of_nat (correct_predictions st) / of_nat (total_predictions st) * 100)\<bar> \<le> 1 / 10"
    unfolding t cr by (rule close)
  have h10: "(failed_stats :: 'f user_stats) =
          \<lparr>total_predictions = 0, correct_predictions = 0, accuracy = 0,
           recent_predictions = [], stats_user = None\<rparr>"
    by (simp only: failed_stats_def)
  note cases = get_stats_cases [of db now later tid]
  from t h2 h3 h4 rf zero h10 cases show ?thesis by blast
qed

text \<open>
  The theorem at the second user of the sample database, who has no prediction.
\<close>

theorem user_stats_result_witness:
  "[] = filter (\<lambda>p. pred_user_id p = Some 2) (predictions sample_db)
   \<and> table_stats (predictions sample_db)
        \<lparr>user_id = 2, telegram_id = 43, username = None, first_name = None,
         last_name = None, is_active = True, is_subscribed = False, is_premium = False,
         subscription_ends = None, created_at = 6, last_seen = 60\<rparr>
      = \<lparr>total_predictions = 0, correct_predictions = 0, accuracy = 0,
         recent_predictions = [],
         stats_user = Some \<lparr>user_id = 2, telegram_id = 43, username = None, first_name = None,
           last_name = None, is_active = True, is_subscribed = False, is_premium = False,
           subscription_ends = None, created_at = 6, last_seen = 60\<rparr>\<rparr>
   \<and> fst (get_user_stats sample_db 60 61 43)
      = \<lparr>total_predictions = 0, correct_predictions = 0, accuracy = 0,
         recent_predictions = [],
         stats_user = Some \<lparr>user_id = 2, telegram_id = 43, username = None, first_name = None,
           last_name = None, is_active = True, is_subscribed = False, is_premium = False,
           subscription_ends = None, created_at = 6, last_seen = 60\<rparr>\<rparr>"
proof -
  define u :: user where "u = \<lparr>user_id = 2, telegram_id = 43, username = None, first_name = None,
         last_name = None, is_active = True, is_subscribed = False, is_premium = False,
         subscription_ends = None, created_at = 6, last_seen = 60\<rparr>"
  have m: "[] = filter (\<lambda>p. pred_user_id p = Some (user_id u)) (predictions sample_db)"
    by (simp add: sample_db_def u_def)
  have g: "get_or_create_user sample_db 60 61 43 None None None = Inr (u, sample_db\<lparr>users :=
      map (\<lambda>r. if user_id r = 2 then user_change 60 None None None u r else r) (users sample_db)\<rparr>)"
    by (simp add: get_or_create_user_def sample_db_def u_def user_change_def py_or_def Let_def)
  from user_stats_result [OF m refl, of sample_db 60 61 43]
  have z: "table_stats (predictions sample_db) u =
      \<lparr>total_predictions = 0, correct_predictions = 0, accuracy = 0,
       recent_predictions = [], stats_user = Some u\<rparr>"
    and d: "(\<exists>e. get_or_create_user sample_db 60 61 43 None None None = Inl e)
        \<or> (\<exists>v db'. get_or_create_user sample_db 60 61 43 None None None = Inr (v, db')
          \<and> get_user_stats sample_db 60 61 43 = (table_stats (predictions sample_db) v, db'))"
    by blast+
  from d g have "fst (get_user_stats sample_db 60 61 43) = table_stats (predictions sample_db) u"
    by auto
  with z m show ?thesis by (simp add: u_def)
qed

section \<open>The adapters' loops\<close>

lemma successes_simps:
  "successes f [] = []"
  "successes f (x # xs) = (case f x of Inl e \<Rightarrow> successes f xs | Inr r \<Rightarrow> r # successes f xs)"
  by (simp_all add: successes_def split: sum.splits)

lemma length_successes: "length (successes f xs) \<le> length xs"
  by (induction xs) (auto simp: successes_simps split: sum.splits)

lemma format_matches_loop_eq:
  "format_matches_loop xs acc = acc @ successes format_match xs"
  by (induction xs arbitrary: acc) (auto simp: successes_simps split: sum.splits)

lemma format_rankings_loop_eq:
  "format_rankings_loop xs acc = acc @ successes format_ranking xs"
  by (induction xs arbitrary: acc) (auto simp: successes_simps split: sum.splits)

lemma format_games_loop_eq:
  "format_games_loop xs acc = acc @ successes format_game xs"
  by (induction xs arbitrary: acc) (auto simp: successes_simps split: sum.splits)

lemma length_take_successes: "length (successes f (take n xs)) \<le> n"
proof -
  have "length (successes f (take n xs)) \<le> length (take n xs)" by (rule length_successes)
  then show ?thesis by simp
qed

lemma fixtures_loop_all_good:
  assumes "map (map_fixture clock) fs = map (\<lambda>m. Inr (Some m)) ms"
  shows "fixtures_loop clock fs acc = Inr (acc @ ms)"
  using assms
proof (induction fs arbitrary: acc ms)
  case Nil
  then show ?case by simp
next
  case (Cons f fs)
  then obtain m ms' where ms: "ms = m # ms'" by (cases ms) auto
  with Cons.prems have h: "map_fixture clock f = Inr (Some m)"
    and t: "map (map_fixture clock) fs = map (\<lambda>m. Inr (Some m)) ms'" by simp_all
  show ?case by (simp add: h Cons.IH [OF t] ms)
qed

lemma fixtures_loop_bad:
  assumes "map_fixture clock bad = Inl e"
    and "map (map_fixture clock) fs = map (\<lambda>m. Inr (Some m)) ms"
  shows "fixtures_loop clock (fs @ bad # rest) acc = Inl e"
  using assms(2)
proof (induction fs arbitrary: acc ms)
  case Nil
  then show ?case by (simp add: assms(1))
next
  case (Cons f fs)
  then obtain m ms' where ms: "ms = m # ms'" by (cases ms) auto
  with Cons.prems have h: "map_fixture clock f = Inr (Some m)"
    and t: "map (map_fixture clock) fs = map (\<lambda>m. Inr (Some m)) ms'" by simp_all
  show ?case by (simp add: h Cons.IH [OF t])
qed

lemma map_fixture_good:
  "map_fixture clock_of_iso (fixture_of 135 h a ''2024-05-26T18:00:00+00:00'') =
     Inr (Some \<lparr>fm_home = JStr h, fm_away = JStr a, fm_league = SA, fm_time = ''18:00''\<rparr>)"
  by (simp add: map_fixture_def fixture_of_def py_get_def bind_err_def league_code_of_def
      league_id_def replace_Z_def clock_of_iso_def)

lemma map_fixture_without_date:
  "map_fixture clock (fixture_without_date 135 h a) = Inl AttributeError"
  by (simp add: map_fixture_def fixture_without_date_def py_get_def bind_err_def
      league_code_of_def league_id_def replace_Z_def)

lemma format_match_null_player:
  "format_match (JObj [(''player1'', JNull), (''player2'', JObj [(''name'', JStr ''B'')])])
     = Inl AttributeError"
  by (simp add: format_match_def py_get_def bind_err_def)

lemma format_match_good:
  "format_match (JObj [(''player1'', JObj [(''name'', JStr a)]),
                       (''player2'', JObj [(''name'', JStr b)])])
     = Inr \<lparr>tm_player1 = JStr a, tm_player2 = JStr b, tm_tournament = JStr ''Tournament'',
            tm_surface = JStr ''Hard'', tm_time = JStr ''TBD'', tm_round = JStr ''R32''\<rparr>"
  by (simp add: format_match_def py_get_def bind_err_def)

lemma football_all_good:
  "football_get_todays_matches clock_of_iso (k # key)
      (Some (replicate (Suc n) (fixture_of 135 h a ''2024-05-26T18:00:00+00:00'')))
    = replicate (Suc n) \<lparr>fm_home = JStr h, fm_away = JStr a, fm_league = SA, fm_time = ''18:00''\<rparr>"
proof -
  define fx where "fx = fixture_of 135 h a ''2024-05-26T18:00:00+00:00''"
  define m where "m = \<lparr>fm_home = JStr h, fm_away = JStr a, fm_league = SA, fm_time = ''18:00''\<rparr>"
  have g: "map_fixture clock_of_iso fx = Inr (Some m)"
    unfolding fx_def m_def by (rule map_fixture_good)
  have "map (map_fixture clock_of_iso) (replicate (Suc n) fx)
      = map (\<lambda>m. Inr (Some m)) (replicate (Suc n) m)"
    by (simp add: g)
  from fixtures_loop_all_good [OF this, of "[]"]
  have "fixtures_loop clock_of_iso (replicate (Suc n) fx) [] = Inr (replicate (Suc n) m)"
    by simp
  then show ?thesis
    unfolding fx_def [symmetric] m_def [symmetric]
    by (simp add: football_get_todays_matches_def)
qed

section \<open>Claims about the data source adapters\<close>

text \<open>
  Claim C5, on the code: the tennis matches are cut to 10, the tennis rankings to 20 and
  the basketball games to 15, and on the API path these are the lists the caller gets. The
  football path has no cut: a response of \<open>n + 1\<close> fixtures of a supported league comes
  back as \<open>n + 1\<close> matches, 21 of them for 21 fixtures.
\<close>

theorem api_lists_cap:
  "length (format_api_matches d) \<le> 10
   \<and> tennis_get_todays_matches (k # key) (Some (x # d)) sim = format_api_matches (x # d)
   \<and> length (snd (format_api_rankings d tour)) \<le> 20
   \<and> length (format_api_games d) \<le> 15
   \<and> basketball_get_todays_matches (k # key) (Some (x # d)) bsim = format_api_games (x # d)
   \<and> football_get_todays_matches clock_of_iso (k # key)
        (Some (replicate (Suc n) (fixture_of 135 h a ''2024-05-26T18:00:00+00:00'')))
      = replicate (Suc n)
          \<lparr>fm_home = JStr h, fm_away = JStr a, fm_league = SA, fm_time = ''18:00''\<rparr>
   \<and> length (football_get_todays_matches clock_of_iso ''key''
        (Some (replicate 21 (fixture_of 135 ''Inter'' ''Milan'' ''2024-05-26T18:00:00+00:00''))))
      = 21"
proof -
  have a: "length (format_api_matches d) \<le> 10"
    by (simp add: format_api_matches_def format_matches_loop_eq length_take_successes)
  have b: "length (snd (format_api_rankings d tour)) \<le> 20"
    by (simp add: format_api_rankings_def format_rankings_loop_eq length_take_successes)
  have c: "length (format_api_games d) \<le> 15"
    by (simp add: format_api_games_def format_games_loop_eq length_take_successes)
  have e: "tennis_get_todays_matches (k # key) (Some (x # d)) sim = format_api_matches (x # d)"
    by (simp add: tennis_get_todays_matches_def)
  have f: "basketball_get_todays_matches (k # key) (Some (x # d)) bsim = format_api_games (x # d)"
    by (simp add: basketball_get_todays_matches_def)
  have "(21::nat) = Suc 20" by simp
  then have g: "length (football_get_todays_matches clock_of_iso ''key''
        (Some (replicate 21 (fixture_of 135 ''Inter'' ''Milan'' ''2024-05-26T18:00:00+00:00''))))
      = 21"
    by (simp only: football_all_good length_replicate)
  from a b c e f g football_all_good [of k key n h a] show ?thesis by blast
qed

text \<open>
  Claim C6, on the code: the tennis and basketball loops return exactly the records of the
  (cut) batch whose mapping raises nothing, so a failing record is skipped and the others
  are kept; a tennis batch with a \<open>null\<close> player in the middle keeps its two other
  records. The football loop maps two good fixtures to two matches, but with a fixture
  whose date is \<open>null\<close> among them the exception leaves the loop and the caller gets the
  simulated list, whatever the other fixtures are.
\<close>

theorem bad_record_handling:
  "format_api_matches d = successes format_match (take 10 d)
   \<and> snd (format_api_rankings d tour) = successes format_ranking (take 20 d)
   \<and> format_api_games d = successes format_game (take 15 d)
   \<and> format_api_matches
        [JObj [(''player1'', JObj [(''name'', JStr ''A'')]), (''player2'', JObj [(''name'', JStr ''B'')])],
         JObj [(''player1'', JNull), (''player2'', JObj [(''name'', JStr ''B'')])],
         JObj [(''player1'', JObj [(''name'', JStr ''C'')]), (''player2'', JObj [(''name'', JStr ''D'')])]]
      = [\<lparr>tm_player1 = JStr ''A'', tm_player2 = JStr ''B'', tm_tournament = JStr ''Tournament'',
          tm_surface = JStr ''Hard'', tm_time = JStr ''TBD'', tm_round = JStr ''R32''\<rparr>,
         \<lparr>tm_player1 = JStr ''C'', tm_player2 = JStr ''D'', tm_tournament = JStr ''Tournament'',
          tm_surface = JStr ''Hard'', tm_time = JStr ''TBD'', tm_round = JStr ''R32''\<rparr>]
   \<and> football_get_todays_matches clock_of_iso ''key''
        (Some [fixture_of 135 ''Inter'' ''Milan'' ''2024-05-26T18:00:00+00:00'',
               fixture_of 135 ''Roma'' ''Lazio'' ''2024-05-26T18:00:00+00:00''])
      = [\<lparr>fm_home = JStr ''Inter'', fm_away = JStr ''Milan'', fm_league = SA, fm_time = ''18:00''\<rparr>,
         \<lparr>fm_home = JStr ''Roma'', fm_away = JStr ''Lazio'', fm_league = SA, fm_time = ''18:00''\<rparr>]
   \<and> football_get_todays_matches clock_of_iso ''key''
        (Some [fixture_of 135 ''Inter'' ''Milan'' ''2024-05-26T18:00:00+00:00'',
               fixture_without_date 135 ''Juventus'' ''Napoli'',
               fixture_of 135 ''Roma'' ''Lazio'' ''2024-05-26T18:00:00+00:00''])
      = get_simulated_matches
   \<and> football_get_todays_matches clock ''key''
        (Some (fixture_without_date 135 ''Juventus'' ''Napoli'' # rest))
      = get_simulated_matches"
proof -
  have a: "format_api_matches d = successes format_match (take 10 d)"
    by (simp add: format_api_matches_def format_matches_loop_eq)
  have b: "snd (format_api_rankings d tour) = successes format_ranking (take 20 d)"
    by (simp add: format_api_rankings_def format_rankings_loop_eq)
  have c: "format_api_games d = successes format_game (take 15 d)"
    by (simp add: format_api_games_def format_games_loop_eq)
  have t: "format_api_matches
        [JObj [(''player1'', JObj [(''name'', JStr ''A'')]), (''player2'', JObj [(''name'', JStr ''B'')])],
         JObj [(''player1'', JNull), (''player2'', JObj [(''name'', JStr ''B'')])],
         JObj [(''player1'', JObj [(''name'', JStr ''C'')]), (''player2'', JObj [(''name'', JStr ''D'')])]]
      = [\<lparr>tm_player1 = JStr ''A'', tm_player2 = JStr ''B'', tm_tournament = JStr ''Tournament'',
          tm_surface = JStr ''Hard'', tm_time = JStr ''TBD'', tm_round = JStr ''R32''\<rparr>,
         \<lparr>tm_player1 = JStr ''C'', tm_player2 = JStr ''D'', tm_tournament = JStr ''Tournament'',
          tm_surface = JStr ''Hard'', tm_time = JStr ''TBD'', tm_round = JStr ''R32''\<rparr>]"
    by (simp add: format_api_matches_def format_match_good format_match_null_player)
  have f2: "football_get_todays_matches clock_of_iso ''key''
        (Some [fixture_of 135 ''Inter'' ''Milan'' ''2024-05-26T18:00:00+00:00'',
               fixture_of 135 ''Roma'' ''Lazio'' ''2024-05-26T18:00:00+00:00''])
      = [\<lparr>fm_home = JStr ''Inter'', fm_away = JStr ''Milan'', fm_league = SA, fm_time = ''18:00''\<rparr>,
         \<lparr>fm_home = JStr ''Roma'', fm_away = JStr ''Lazio'', fm_league = SA, fm_time = ''18:00''\<rparr>]"
    by (simp add: football_get_todays_matches_def map_fixture_good)
  have f3: "football_get_todays_matches clock_of_iso ''key''
        (Some [fixture_of 135 ''Inter'' ''Milan'' ''2024-05-26T18:00:00+00:00'',
               fixture_without_date 135 ''Juventus'' ''Napoli'',
               fixture_of 135 ''Roma'' ''Lazio'' ''2024-05-26T18:00:00+00:00''])
      = get_simulated_matches"
    by (simp add: football_get_todays_matches_def map_fixture_good map_fixture_without_date)
  have f1: "football_get_todays_matches clock ''key''
        (Some (fixture_without_date 135 ''Juventus'' ''Napoli'' # rest))
      = get_simulated_matches"
    by (simp add: football_get_todays_matches_def map_fixture_without_date)
  from a b c t f2 f3 f1 show ?thesis by blast
qed

end
